theory Spec2Isabelle
  imports Main "HOL-Library.Word"
begin

section \<open>The sysfs GPIO wrapper of gpio.c, embedded in HOL\<close>

text \<open>
  The wrapper consists of eight C functions. Each formats a path into a local
  60-byte buffer with \<^verbatim>\<open>snprintf\<close> and then issues a fixed sequence of the
  system calls \<^verbatim>\<open>access\<close>, \<^verbatim>\<open>open\<close>, \<^verbatim>\<open>read\<close>, \<^verbatim>\<open>write\<close> and \<^verbatim>\<open>close\<close>.
  The embedding keeps the buffer handling, makes the kernel an explicit parameter
  that answers every call, and threads the log of calls made so far through each
  function, so that what a function opens, writes and closes can be read off its
  result.
\<close>

subsection \<open>Types and constants of gpio.h\<close>

text \<open>
  A pin number is a \<^verbatim>\<open>uint16_t\<close>. The three enumerations are C enums, that is
  integers: a caller can pass a value that matches no declared enumerator, and the
  \<^verbatim>\<open>default\<close> branches of the source exist for that case. They are therefore
  integers here, with the enumerators as constants.
\<close>

type_synonym uint16_t = "16 word"

type_synonym gpio_direction_e = int

definition E_GPIO_IN :: gpio_direction_e where
  "E_GPIO_IN = 0"

definition E_GPIO_OUT :: gpio_direction_e where
  "E_GPIO_OUT = 1"

type_synonym gpio_value_e = int

definition E_GPIO_LOW :: gpio_value_e where
  "E_GPIO_LOW = 0"

definition E_GPIO_HIGH :: gpio_value_e where
  "E_GPIO_HIGH = 1"

type_synonym gpio_edge_e = int

definition E_GPIO_NONE :: gpio_edge_e where
  "E_GPIO_NONE = 0"

definition E_GPIO_RISING :: gpio_edge_e where
  "E_GPIO_RISING = 1"

definition E_GPIO_FALLING :: gpio_edge_e where
  "E_GPIO_FALLING = 2"

definition E_GPIO_BOTH :: gpio_edge_e where
  "E_GPIO_BOTH = 3"

subsection \<open>Constants of gpio.c\<close>

definition SYS_GPIO_DIR :: string where
  "SYS_GPIO_DIR = ''/sys/class/gpio''"

definition CMD_BUF_MAX_LEN :: nat where
  "CMD_BUF_MAX_LEN = 60"

subsection \<open>The C library: buffers, strings and formatting\<close>

definition NUL :: char where
  "NUL = CHR 0x00"

text \<open>\<^verbatim>\<open>memset(buf, 0, n)\<close> on a buffer of \<open>n\<close> bytes.\<close>

definition memset0 :: "nat \<Rightarrow> string" where
  "memset0 n = replicate n NUL"

text \<open>The decimal digits of a natural number, most significant first.\<close>

fun dec_nat :: "nat \<Rightarrow> string" where
  "dec_nat n =
     (if n < 10 then [''0123456789'' ! n]
      else dec_nat (n div 10) @ [''0123456789'' ! (n mod 10)])"

declare dec_nat.simps [simp del]

text \<open>The conversion \<^verbatim>\<open>%d\<close> of an \<^verbatim>\<open>int\<close> argument.\<close>

definition fmt_d :: "int \<Rightarrow> string" where
  "fmt_d i = (if i < 0 then CHR ''-'' # dec_nat (nat (- i)) else dec_nat (nat i))"

text \<open>
  \<^verbatim>\<open>snprintf(buf, sz, ...)\<close>, where \<open>s\<close> is the text the format and its
  arguments produce: at most \<open>sz - 1\<close> characters of \<open>s\<close> are stored, followed by
  a terminating NUL; the rest of the buffer is left as it was. The return value
  is the length of \<open>s\<close>, whether it was truncated or not.
\<close>

definition snprintf :: "string \<Rightarrow> nat \<Rightarrow> string \<Rightarrow> string \<times> int" where
  "snprintf buf sz s =
     (if sz = 0 then (buf, int (length s))
      else (let out = take (sz - 1) s @ [NUL]
            in (out @ drop (length out) buf, int (length s))))"

text \<open>The C string a buffer holds: its bytes up to the first NUL.\<close>

definition c_str :: "string \<Rightarrow> string" where
  "c_str buf = takeWhile (\<lambda>c. c \<noteq> NUL) buf"

text \<open>
  The texts produced by the format strings of the source. The \<^verbatim>\<open>uint16_t\<close>
  argument of \<^verbatim>\<open>%d\<close> is promoted to \<^verbatim>\<open>int\<close>, which is \<open>uint\<close> of the word.
\<close>

definition fmt_gpio :: "uint16_t \<Rightarrow> string" where
  "fmt_gpio gpio_num = SYS_GPIO_DIR @ ''/gpio'' @ fmt_d (uint gpio_num)"

definition fmt_export :: string where
  "fmt_export = SYS_GPIO_DIR @ ''/export''"

definition fmt_unexport :: string where
  "fmt_unexport = SYS_GPIO_DIR @ ''/unexport''"

definition fmt_direction :: "uint16_t \<Rightarrow> string" where
  "fmt_direction gpio_num = SYS_GPIO_DIR @ ''/gpio'' @ fmt_d (uint gpio_num) @ ''/direction''"

definition fmt_value :: "uint16_t \<Rightarrow> string" where
  "fmt_value gpio_num = SYS_GPIO_DIR @ ''/gpio'' @ fmt_d (uint gpio_num) @ ''/value''"

definition fmt_edge :: "uint16_t \<Rightarrow> string" where
  "fmt_edge gpio_num = SYS_GPIO_DIR @ ''/gpio'' @ fmt_d (uint gpio_num) @ ''/edge''"

definition fmt_num :: "uint16_t \<Rightarrow> string" where
  "fmt_num gpio_num = fmt_d (uint gpio_num)"

subsection \<open>The kernel as a parameter, and the log of system calls\<close>

datatype amode = F_OK

datatype oflag = O_RDONLY | O_WRONLY | O_NONBLOCK

text \<open>
  One entry of the log per system call made: the arguments and what the kernel
  answered. For \<open>EWrite\<close> the string is the bytes handed to \<^verbatim>\<open>write\<close>; for
  \<open>ERead\<close> the option is \<open>None\<close> when \<^verbatim>\<open>read\<close> failed and otherwise the bytes
  delivered.
\<close>

datatype event =
    EAccess string amode int
  | EOpen string "oflag set" int
  | EWrite int string int
  | ERead int nat "string option"
  | EClose int int

type_synonym trace = "event list"

text \<open>
  The kernel answers each call from the history so far and the call's
  arguments. \<^verbatim>\<open>access\<close>, \<^verbatim>\<open>open\<close> and \<^verbatim>\<open>close\<close> return an \<^verbatim>\<open>int\<close>, and any
  \<^verbatim>\<open>int\<close> is allowed as the answer. \<^verbatim>\<open>write\<close> and \<^verbatim>\<open>read\<close> return an
  \<^verbatim>\<open>ssize_t\<close> that is \<open>-1\<close> or a number of bytes between 0 and the count
  requested: the answer to \<^verbatim>\<open>write\<close> is \<open>None\<close> for the failure and otherwise
  the number of bytes the kernel took, the answer to \<^verbatim>\<open>read\<close> is \<open>None\<close> for the
  failure and otherwise the bytes the kernel offers.
\<close>

record kernel =
  k_access :: "trace \<Rightarrow> string \<Rightarrow> amode \<Rightarrow> int"
  k_open :: "trace \<Rightarrow> string \<Rightarrow> oflag set \<Rightarrow> int"
  k_write :: "trace \<Rightarrow> int \<Rightarrow> string \<Rightarrow> nat option"
  k_read :: "trace \<Rightarrow> int \<Rightarrow> nat \<Rightarrow> string option"
  k_close :: "trace \<Rightarrow> int \<Rightarrow> int"

definition sys_access :: "kernel \<Rightarrow> string \<Rightarrow> amode \<Rightarrow> trace \<Rightarrow> int \<times> trace" where
  "sys_access k path mode t =
     (let r = k_access k t path mode in (r, t @ [EAccess path mode r]))"

definition sys_open :: "kernel \<Rightarrow> string \<Rightarrow> oflag set \<Rightarrow> trace \<Rightarrow> int \<times> trace" where
  "sys_open k path flags t =
     (let r = k_open k t path flags in (r, t @ [EOpen path flags r]))"

text \<open>
  The value \<^verbatim>\<open>write\<close> returns for a request of \<open>count\<close> bytes: \<open>-1\<close> when it
  failed, otherwise the number of bytes taken, which is at most \<open>count\<close>. Every
  caller in gpio.c requests at most 60 bytes and assigns the \<^verbatim>\<open>ssize_t\<close> result
  to its \<^verbatim>\<open>int ret\<close>; a value between \<open>-1\<close> and 60 is in the range of \<^verbatim>\<open>int\<close>,
  so the assignment keeps it.
\<close>

definition write_ret :: "nat option \<Rightarrow> nat \<Rightarrow> int" where
  "write_ret ans count = (case ans of None \<Rightarrow> - 1 | Some n \<Rightarrow> int (min n count))"

text \<open>\<^verbatim>\<open>write(fd, buf, count)\<close> hands the first \<open>count\<close> bytes of \<open>buf\<close> to the kernel.\<close>

definition sys_write :: "kernel \<Rightarrow> int \<Rightarrow> string \<Rightarrow> nat \<Rightarrow> trace \<Rightarrow> int \<times> trace" where
  "sys_write k fd buf count t =
     (let d = take count buf; r = write_ret (k_write k t fd d) count
      in (r, t @ [EWrite fd d r]))"

text \<open>
  \<^verbatim>\<open>read(fd, buf, count)\<close>: on failure the result is \<open>-1\<close> and the buffer is
  untouched; otherwise at most \<open>count\<close> of the bytes the kernel offers overwrite
  the start of the buffer and their number is returned.
\<close>

definition sys_read :: "kernel \<Rightarrow> int \<Rightarrow> string \<Rightarrow> nat \<Rightarrow> trace \<Rightarrow> (int \<times> string) \<times> trace" where
  "sys_read k fd buf count t =
     (case k_read k t fd count of
        None \<Rightarrow> ((- 1, buf), t @ [ERead fd count None])
      | Some d \<Rightarrow>
          (let got = take count d
           in ((int (length got), got @ drop (length got) buf),
               t @ [ERead fd count (Some got)])))"

definition sys_close :: "kernel \<Rightarrow> int \<Rightarrow> trace \<Rightarrow> int \<times> trace" where
  "sys_close k fd t =
     (let r = k_close k t fd in (r, t @ [EClose fd r]))"

subsection \<open>Memory for the output parameter of gpio\_get\_value\<close>

text \<open>
  \<^verbatim>\<open>gpio_value_e *value\<close> is an address; \<open>NULL\<close> is address 0. The heap maps
  addresses to the \<^verbatim>\<open>gpio_value_e\<close> objects stored there.
\<close>

type_synonym addr = nat

type_synonym heap = "addr \<Rightarrow> gpio_value_e"

definition NULL :: addr where
  "NULL = 0"

subsection \<open>gpio\_export and gpio\_unexport\<close>

definition gpio_export :: "kernel \<Rightarrow> uint16_t \<Rightarrow> trace \<Rightarrow> bool \<times> trace" where
  "gpio_export k gpio_num t0 =
     (let cmd_buf = memset0 CMD_BUF_MAX_LEN;
          (cmd_buf, _) = snprintf cmd_buf CMD_BUF_MAX_LEN (fmt_gpio gpio_num);
          (ret, t1) = sys_access k (c_str cmd_buf) F_OK t0
      in if 0 = ret then (True, t1)
         else
           (let cmd_buf = memset0 CMD_BUF_MAX_LEN;
                (cmd_buf, _) = snprintf cmd_buf CMD_BUF_MAX_LEN fmt_export;
                (fd, t2) = sys_open k (c_str cmd_buf) {O_WRONLY} t1
            in if fd < 0 then (False, t2)
               else
                 (let cmd_buf = memset0 CMD_BUF_MAX_LEN;
                      (cmd_buf, len) = snprintf cmd_buf CMD_BUF_MAX_LEN (fmt_num gpio_num);
                      (ret, t3) = sys_write k fd cmd_buf (nat len) t2
                  in if len \<noteq> ret then (let (_, t4) = sys_close k fd t3 in (False, t4))
                     else
                       (let (ret, t4) = sys_close k fd t3
                        in if 0 \<noteq> ret then (False, t4) else (True, t4)))))"

definition gpio_unexport :: "kernel \<Rightarrow> uint16_t \<Rightarrow> trace \<Rightarrow> bool \<times> trace" where
  "gpio_unexport k gpio_num t0 =
     (let cmd_buf = memset0 CMD_BUF_MAX_LEN;
          (cmd_buf, _) = snprintf cmd_buf CMD_BUF_MAX_LEN (fmt_gpio gpio_num);
          (ret, t1) = sys_access k (c_str cmd_buf) F_OK t0
      in if - 1 = ret then (True, t1)
         else
           (let cmd_buf = memset0 CMD_BUF_MAX_LEN;
                (cmd_buf, _) = snprintf cmd_buf CMD_BUF_MAX_LEN fmt_unexport;
                (fd, t2) = sys_open k (c_str cmd_buf) {O_WRONLY} t1
            in if fd < 0 then (False, t2)
               else
                 (let cmd_buf = memset0 CMD_BUF_MAX_LEN;
                      (cmd_buf, len) = snprintf cmd_buf CMD_BUF_MAX_LEN (fmt_num gpio_num);
                      (ret, t3) = sys_write k fd cmd_buf (nat len) t2
                  in if len \<noteq> ret then (let (_, t4) = sys_close k fd t3 in (False, t4))
                     else
                       (let (ret, t4) = sys_close k fd t3
                        in if 0 \<noteq> ret then (False, t4) else (True, t4)))))"

subsection \<open>gpio\_set\_direction, gpio\_set\_value and gpio\_set\_edge\<close>

text \<open>
  The \<^verbatim>\<open>switch\<close> over the enum is an if-chain over the declared enumerators;
  its \<^verbatim>\<open>default\<close> branch returns \<^verbatim>\<open>false\<close> at once, as the source does.
\<close>

definition gpio_set_direction :: "kernel \<Rightarrow> uint16_t \<Rightarrow> gpio_direction_e \<Rightarrow> trace \<Rightarrow> bool \<times> trace" where
  "gpio_set_direction k gpio_num direction t0 =
     (let cmd_buf = memset0 CMD_BUF_MAX_LEN;
          (cmd_buf, _) = snprintf cmd_buf CMD_BUF_MAX_LEN (fmt_gpio gpio_num);
          (ret, t1) = sys_access k (c_str cmd_buf) F_OK t0
      in if - 1 = ret then (False, t1)
         else
           (let cmd_buf = memset0 CMD_BUF_MAX_LEN;
                (cmd_buf, _) = snprintf cmd_buf CMD_BUF_MAX_LEN (fmt_direction gpio_num);
                (fd, t2) = sys_open k (c_str cmd_buf) {O_WRONLY} t1
            in if fd < 0 then (False, t2)
               else if direction = E_GPIO_IN then
                 (let (ret, t3) = sys_write k fd ''in'' (length ''in'') t2
                  in if - 1 = ret then (let (_, t4) = sys_close k fd t3 in (False, t4))
                     else (let (ret, t4) = sys_close k fd t3
                           in if - 1 = ret then (False, t4) else (True, t4)))
               else if direction = E_GPIO_OUT then
                 (let (ret, t3) = sys_write k fd ''out'' (length ''out'') t2
                  in if - 1 = ret then (let (_, t4) = sys_close k fd t3 in (False, t4))
                     else (let (ret, t4) = sys_close k fd t3
                           in if - 1 = ret then (False, t4) else (True, t4)))
               else (False, t2)))"

definition gpio_set_value :: "kernel \<Rightarrow> uint16_t \<Rightarrow> gpio_value_e \<Rightarrow> trace \<Rightarrow> bool \<times> trace" where
  "gpio_set_value k gpio_num val t0 =
     (let cmd_buf = memset0 CMD_BUF_MAX_LEN;
          (cmd_buf, _) = snprintf cmd_buf CMD_BUF_MAX_LEN (fmt_gpio gpio_num);
          (ret, t1) = sys_access k (c_str cmd_buf) F_OK t0
      in if - 1 = ret then (False, t1)
         else
           (let cmd_buf = memset0 CMD_BUF_MAX_LEN;
                (cmd_buf, _) = snprintf cmd_buf CMD_BUF_MAX_LEN (fmt_value gpio_num);
                (fd, t2) = sys_open k (c_str cmd_buf) {O_WRONLY} t1
            in if fd < 0 then (False, t2)
               else if val = E_GPIO_LOW then
                 (let (ret, t3) = sys_write k fd ''0'' (length ''0'') t2
                  in if - 1 = ret then (let (_, t4) = sys_close k fd t3 in (False, t4))
                     else (let (ret, t4) = sys_close k fd t3
                           in if - 1 = ret then (False, t4) else (True, t4)))
               else if val = E_GPIO_HIGH then
                 (let (ret, t3) = sys_write k fd ''1'' (length ''1'') t2
                  in if - 1 = ret then (let (_, t4) = sys_close k fd t3 in (False, t4))
                     else (let (ret, t4) = sys_close k fd t3
                           in if - 1 = ret then (False, t4) else (True, t4)))
               else (False, t2)))"

definition gpio_set_edge :: "kernel \<Rightarrow> uint16_t \<Rightarrow> gpio_edge_e \<Rightarrow> trace \<Rightarrow> bool \<times> trace" where
  "gpio_set_edge k gpio_num edge t0 =
     (let cmd_buf = memset0 CMD_BUF_MAX_LEN;
          (cmd_buf, _) = snprintf cmd_buf CMD_BUF_MAX_LEN (fmt_gpio gpio_num);
          (ret, t1) = sys_access k (c_str cmd_buf) F_OK t0
      in if - 1 = ret then (False, t1)
         else
           (let cmd_buf = memset0 CMD_BUF_MAX_LEN;
                (cmd_buf, ret) = snprintf cmd_buf CMD_BUF_MAX_LEN (fmt_edge gpio_num);
                (fd, t2) = sys_open k (c_str cmd_buf) {O_WRONLY} t1
            in if fd < 0 then (False, t2)
               else if edge = E_GPIO_NONE then
                 (let (ret, t3) = sys_write k fd ''none'' (length ''none'') t2
                  in if - 1 = ret then (let (_, t4) = sys_close k fd t3 in (False, t4))
                     else (let (ret, t4) = sys_close k fd t3
                           in if - 1 = ret then (False, t4) else (True, t4)))
               else if edge = E_GPIO_RISING then
                 (let (ret, t3) = sys_write k fd ''rising'' (length ''rising'') t2
                  in if - 1 = ret then (let (_, t4) = sys_close k fd t3 in (False, t4))
                     else (let (ret, t4) = sys_close k fd t3
                           in if - 1 = ret then (False, t4) else (True, t4)))
               else if edge = E_GPIO_FALLING then
                 (let (ret, t3) = sys_write k fd ''falling'' (length ''falling'') t2
                  in if - 1 = ret then (let (_, t4) = sys_close k fd t3 in (False, t4))
                     else (let (ret, t4) = sys_close k fd t3
                           in if - 1 = ret then (False, t4) else (True, t4)))
               else if edge = E_GPIO_BOTH then
                 (let (ret, t3) = sys_write k fd ''both'' (length ''both'') t2
                  in if - 1 = ret then (let (_, t4) = sys_close k fd t3 in (False, t4))
                     else (let (ret, t4) = sys_close k fd t3
                           in if - 1 = ret then (False, t4) else (True, t4)))
               else (False, t2)))"

subsection \<open>gpio\_get\_value\<close>

text \<open>
  The local \<^verbatim>\<open>char ch = 0\<close> is a one-byte buffer for \<^verbatim>\<open>read(fd, &ch, 1)\<close>.
  The result is the return value, the heap after the call and the log.
\<close>

definition gpio_get_value :: "kernel \<Rightarrow> addr \<Rightarrow> uint16_t \<Rightarrow> heap \<Rightarrow> trace \<Rightarrow> bool \<times> heap \<times> trace" where
  "gpio_get_value k val gpio_num h t0 =
     (if val = NULL then (False, h, t0)
      else
        (let cmd_buf = memset0 CMD_BUF_MAX_LEN;
             (cmd_buf, _) = snprintf cmd_buf CMD_BUF_MAX_LEN (fmt_gpio gpio_num);
             (ret, t1) = sys_access k (c_str cmd_buf) F_OK t0
         in if - 1 = ret then (False, h, t1)
            else
              (let cmd_buf = memset0 CMD_BUF_MAX_LEN;
                   (cmd_buf, _) = snprintf cmd_buf CMD_BUF_MAX_LEN (fmt_value gpio_num);
                   (fd, t2) = sys_open k (c_str cmd_buf) {O_RDONLY} t1
               in if fd < 0 then (False, h, t2)
                  else
                    (let ((ret, chbuf), t3) = sys_read k fd [NUL] 1 t2
                     in if - 1 = ret then (let (_, t4) = sys_close k fd t3 in (False, h, t4))
                        else
                          (let ch = (case chbuf of c # _ \<Rightarrow> c | [] \<Rightarrow> NUL)
                           in if ch = CHR ''0'' then
                                (let h1 = h(val := E_GPIO_LOW);
                                     (ret, t4) = sys_close k fd t3
                                 in if - 1 = ret then (False, h1, t4) else (True, h1, t4))
                              else if ch = CHR ''1'' then
                                (let h1 = h(val := E_GPIO_HIGH);
                                     (ret, t4) = sys_close k fd t3
                                 in if - 1 = ret then (False, h1, t4) else (True, h1, t4))
                              else (let (_, t4) = sys_close k fd t3 in (False, h, t4)))))))"

subsection \<open>gpio\_open and gpio\_close\<close>

definition gpio_open :: "kernel \<Rightarrow> uint16_t \<Rightarrow> trace \<Rightarrow> int \<times> trace" where
  "gpio_open k gpio_num t0 =
     (let cmd_buf = memset0 CMD_BUF_MAX_LEN;
          (cmd_buf, _) = snprintf cmd_buf CMD_BUF_MAX_LEN (fmt_value gpio_num);
          (fd, t1) = sys_open k (c_str cmd_buf) {O_RDONLY, O_NONBLOCK} t0
      in if fd < 0 then (- 1, t1) else (fd, t1))"

definition gpio_close :: "kernel \<Rightarrow> int \<Rightarrow> trace \<Rightarrow> bool \<times> trace" where
  "gpio_close k fd t0 =
     (let (ret, t1) = sys_close k fd t0
      in if 0 = ret then (True, t1) else (False, t1))"

subsection \<open>Vocabulary for stating results\<close>

text \<open>
  The string literal each \<^verbatim>\<open>case\<close> of the setters' switches writes, read off
  the source; \<open>None\<close> for an argument that matches no declared enumerator (the
  \<^verbatim>\<open>default\<close> branch).
\<close>

definition direction_text :: "gpio_direction_e \<Rightarrow> string option" where
  "direction_text d =
     (if d = E_GPIO_IN then Some ''in''
      else if d = E_GPIO_OUT then Some ''out''
      else None)"

definition value_text :: "gpio_value_e \<Rightarrow> string option" where
  "value_text v =
     (if v = E_GPIO_LOW then Some ''0''
      else if v = E_GPIO_HIGH then Some ''1''
      else None)"

definition edge_text :: "gpio_edge_e \<Rightarrow> string option" where
  "edge_text e =
     (if e = E_GPIO_NONE then Some ''none''
      else if e = E_GPIO_RISING then Some ''rising''
      else if e = E_GPIO_FALLING then Some ''falling''
      else if e = E_GPIO_BOTH then Some ''both''
      else None)"

text \<open>
  The three setters end every declared \<^verbatim>\<open>case\<close> with the same steps: one
  \<^verbatim>\<open>write\<close> of a string literal, then \<^verbatim>\<open>close\<close>; the call succeeds when
  neither returned \<open>-1\<close>. \<open>write_close\<close> names that tail, so that results about
  the setters can be stated once per literal.
\<close>

definition write_close :: "kernel \<Rightarrow> int \<Rightarrow> string \<Rightarrow> trace \<Rightarrow> bool \<times> trace" where
  "write_close k fd lit t2 =
     (let w = write_ret (k_write k t2 fd lit) (length lit);
          t3 = t2 @ [EWrite fd lit w];
          c = k_close k t3 fd;
          t4 = t3 @ [EClose fd c]
      in (w \<noteq> - 1 \<and> c \<noteq> - 1, t4))"

text \<open>
  A formatted text fits the command buffer when it leaves room for the
  terminating NUL, so that \<^verbatim>\<open>snprintf\<close> stores all of it and the buffer, read
  back as a C string, is that text.
\<close>

definition fits :: "string \<Rightarrow> bool" where
  "fits s =
     (length s + 1 \<le> CMD_BUF_MAX_LEN \<and>
      c_str (fst (snprintf (memset0 CMD_BUF_MAX_LEN) CMD_BUF_MAX_LEN s)) = s \<and>
      snd (snprintf (memset0 CMD_BUF_MAX_LEN) CMD_BUF_MAX_LEN s) = int (length s))"

text \<open>
  What it means for a string to be the decimal representation of a number,
  stated without reference to the formatting code: the string is not empty,
  consists of the characters \<open>0\<close> to \<open>9\<close>, has the number as its value when read
  from the most significant digit, and has no leading zero (the string \<open>0\<close>
  itself apart).
\<close>

definition digit_value :: "char \<Rightarrow> nat" where
  "digit_value c = of_char c - 48"

definition decimal_of :: "nat \<Rightarrow> string \<Rightarrow> bool" where
  "decimal_of n ds =
     (ds \<noteq> [] \<and>
      list_all (\<lambda>c. c \<in> set ''0123456789'') ds \<and>
      foldl (\<lambda>v c. 10 * v + digit_value c) 0 ds = n \<and>
      (ds = ''0'' \<or> hd ds \<noteq> CHR ''0''))"

text \<open>
  The paths a log names, in order: those handed to \<^verbatim>\<open>access\<close> and to
  \<^verbatim>\<open>open\<close>.
\<close>

fun event_path :: "event \<Rightarrow> string list" where
  "event_path (EAccess path mode r) = [path]"
| "event_path (EOpen path flags r) = [path]"
| "event_path e = []"

definition paths_of :: "trace \<Rightarrow> string list" where
  "paths_of t = concat (map event_path t)"

text \<open>
  Descriptors held, read off the log: a descriptor is held from the
  \<^verbatim>\<open>open\<close> that returned it (a non-negative result) until it is passed to
  \<^verbatim>\<open>close\<close>.
\<close>

fun held_step :: "int list \<Rightarrow> event \<Rightarrow> int list" where
  "held_step fds (EOpen path flags r) = (if 0 \<le> r then r # fds else fds)"
| "held_step fds (EClose fd r) = remove1 fd fds"
| "held_step fds e = fds"

definition held :: "trace \<Rightarrow> int list" where
  "held t = foldl held_step [] t"

subsection \<open>Scripted kernels for concrete runs\<close>

text \<open>
  A kernel that gives the same answer to every call of a kind: \<open>a\<close> for
  \<^verbatim>\<open>access\<close>, \<open>fd\<close> for \<^verbatim>\<open>open\<close>, \<open>r\<close> for \<^verbatim>\<open>read\<close> and \<open>c\<close> for
  \<^verbatim>\<open>close\<close>; \<^verbatim>\<open>write\<close> fails when \<open>w\<close> is negative and otherwise takes \<open>w\<close>
  bytes (or all of them, if fewer were handed over).
\<close>

definition scripted :: "int \<Rightarrow> int \<Rightarrow> int \<Rightarrow> string option \<Rightarrow> int \<Rightarrow> kernel" where
  "scripted a fd w r c =
     \<lparr> k_access = (\<lambda>t path mode. a),
       k_open = (\<lambda>t path flags. fd),
       k_write = (\<lambda>t fd' d. if w < 0 then None else Some (nat w)),
       k_read = (\<lambda>t fd' n. r),
       k_close = (\<lambda>t fd'. c) \<rparr>"

section \<open>Formatting: digits, lengths and the command buffer\<close>

lemma digit_no_NUL: "d < 10 \<Longrightarrow> ''0123456789'' ! d \<noteq> NUL"
proof -
  assume "d < 10"
  then have "d \<in> {0, 1, 2, 3, 4, 5, 6, 7, 8, 9}" by auto
  then show ?thesis by (auto simp: NUL_def)
qed

lemma dec_nat_no_NUL: "NUL \<notin> set (dec_nat n)"
proof (induction n rule: dec_nat.induct)
  case (1 n)
  show ?case
  proof (cases "n < 10")
    case True
    then show ?thesis using digit_no_NUL [of n] by (subst dec_nat.simps) auto
  next
    case False
    with 1 have "NUL \<notin> set (dec_nat (n div 10))" by simp
    moreover have "''0123456789'' ! (n mod 10) \<noteq> NUL" by (rule digit_no_NUL) simp
    ultimately show ?thesis using False by (subst dec_nat.simps) auto
  qed
qed

lemma length_dec_nat: "0 < k \<Longrightarrow> n < 10 ^ k \<Longrightarrow> length (dec_nat n) \<le> k"
proof (induction n arbitrary: k rule: dec_nat.induct)
  case (1 n)
  show ?case
  proof (cases "n < 10")
    case True
    then show ?thesis using 1(2) by (subst dec_nat.simps) simp
  next
    case False
    from 1(2) obtain j where kj: "k = Suc j" by (cases k) auto
    with 1(3) False have "0 < j" by (cases j) auto
    with kj have j: "k = Suc j" "0 < j" by simp_all
    with 1(3) have "n div 10 < 10 ^ j" by (simp add: less_mult_imp_div_less mult.commute)
    with 1(1) [OF False j(2)] have "length (dec_nat (n div 10)) \<le> j" by simp
    then show ?thesis using False j by (subst dec_nat.simps) simp
  qed
qed

lemma fmt_num_length: "length (fmt_num w) \<le> 5"
proof -
  have "unat w < 2 ^ 16" using unsigned_less [of w, where ?'a = nat] by simp
  then have "nat (uint w) < 10 ^ 5" by simp
  then show ?thesis
    using length_dec_nat [of 5 "nat (uint w)"] by (simp add: fmt_num_def fmt_d_def)
qed

lemma fmt_num_no_NUL: "NUL \<notin> set (fmt_num w)"
  by (simp add: fmt_num_def fmt_d_def dec_nat_no_NUL)

lemma c_str_snprintf:
  assumes "length s < sz" and "NUL \<notin> set s"
  shows "c_str (fst (snprintf buf sz s)) = s" and "snd (snprintf buf sz s) = int (length s)"
  using assms by (auto simp: c_str_def snprintf_def Let_def takeWhile_tail)


lemma fmt_lengths:
  "length (fmt_gpio w) < CMD_BUF_MAX_LEN"
  "length fmt_export < CMD_BUF_MAX_LEN"
  "length fmt_unexport < CMD_BUF_MAX_LEN"
  "length (fmt_direction w) < CMD_BUF_MAX_LEN"
  "length (fmt_value w) < CMD_BUF_MAX_LEN"
  "length (fmt_edge w) < CMD_BUF_MAX_LEN"
  "length (fmt_num w) < CMD_BUF_MAX_LEN"
  using fmt_num_length [of w]
  by (simp_all add: fmt_gpio_def fmt_export_def fmt_unexport_def fmt_direction_def
      fmt_value_def fmt_edge_def SYS_GPIO_DIR_def CMD_BUF_MAX_LEN_def
      fmt_num_def [symmetric])

lemma fmt_no_NUL:
  "NUL \<notin> set (fmt_gpio w)"
  "NUL \<notin> set fmt_export"
  "NUL \<notin> set fmt_unexport"
  "NUL \<notin> set (fmt_direction w)"
  "NUL \<notin> set (fmt_value w)"
  "NUL \<notin> set (fmt_edge w)"
  using fmt_num_no_NUL [of w]
  by (auto simp: fmt_gpio_def fmt_export_def fmt_unexport_def fmt_direction_def
      fmt_value_def fmt_edge_def SYS_GPIO_DIR_def NUL_def
      fmt_num_def [symmetric])

lemma take_snprintf:
  "length s < sz \<Longrightarrow> take (length s) (fst (snprintf buf sz s)) = s"
  by (simp add: snprintf_def Let_def)

lemmas cmd_buf_paths =
  c_str_snprintf(1) [OF fmt_lengths(1) fmt_no_NUL(1)]
  c_str_snprintf(1) [OF fmt_lengths(2) fmt_no_NUL(2)]
  c_str_snprintf(1) [OF fmt_lengths(3) fmt_no_NUL(3)]
  c_str_snprintf(1) [OF fmt_lengths(4) fmt_no_NUL(4)]
  c_str_snprintf(1) [OF fmt_lengths(5) fmt_no_NUL(5)]
  c_str_snprintf(1) [OF fmt_lengths(6) fmt_no_NUL(6)]
  c_str_snprintf(2) [OF fmt_lengths(7) fmt_num_no_NUL]
  take_snprintf [OF fmt_lengths(7)]

section \<open>Each function as a sequence of system calls on exact paths\<close>

lemmas sys_defs = sys_access_def sys_open_def sys_write_def sys_read_def sys_close_def

lemma gpio_export_run:
  "gpio_export k pin t =
     (let a = k_access k t (fmt_gpio pin) F_OK;
          t1 = t @ [EAccess (fmt_gpio pin) F_OK a];
          fd = k_open k t1 fmt_export {O_WRONLY};
          t2 = t1 @ [EOpen fmt_export {O_WRONLY} fd];
          w = write_ret (k_write k t2 fd (fmt_num pin)) (length (fmt_num pin));
          t3 = t2 @ [EWrite fd (fmt_num pin) w];
          c = k_close k t3 fd;
          t4 = t3 @ [EClose fd c]
      in if a = 0 then (True, t1)
         else if fd < 0 then (False, t2)
         else (w = int (length (fmt_num pin)) \<and> c = 0, t4))"
  unfolding gpio_export_def
  by (simp add: Let_def split_def sys_defs cmd_buf_paths eq_commute [of "int (length (fmt_num pin))"])

lemma gpio_unexport_run:
  "gpio_unexport k pin t =
     (let a = k_access k t (fmt_gpio pin) F_OK;
          t1 = t @ [EAccess (fmt_gpio pin) F_OK a];
          fd = k_open k t1 fmt_unexport {O_WRONLY};
          t2 = t1 @ [EOpen fmt_unexport {O_WRONLY} fd];
          w = write_ret (k_write k t2 fd (fmt_num pin)) (length (fmt_num pin));
          t3 = t2 @ [EWrite fd (fmt_num pin) w];
          c = k_close k t3 fd;
          t4 = t3 @ [EClose fd c]
      in if a = - 1 then (True, t1)
         else if fd < 0 then (False, t2)
         else (w = int (length (fmt_num pin)) \<and> c = 0, t4))"
  unfolding gpio_unexport_def
  by (simp add: Let_def split_def sys_defs cmd_buf_paths eq_commute [of "int (length (fmt_num pin))"])


lemma write_close_eq:
  "(let (ret, t3) = sys_write k fd lit (length lit) t2
    in if - 1 = ret then (let (_, t4) = sys_close k fd t3 in (False, t4))
       else (let (ret, t4) = sys_close k fd t3
             in if - 1 = ret then (False, t4) else (True, t4))) = write_close k fd lit t2"
  by (simp add: write_close_def Let_def split_def sys_defs eq_commute [of "- 1"])

lemma gpio_set_edge_run:
  "gpio_set_edge k pin e t =
     (let a = k_access k t (fmt_gpio pin) F_OK;
          t1 = t @ [EAccess (fmt_gpio pin) F_OK a];
          fd = k_open k t1 (fmt_edge pin) {O_WRONLY};
          t2 = t1 @ [EOpen (fmt_edge pin) {O_WRONLY} fd]
      in if a = - 1 then (False, t1)
         else if fd < 0 then (False, t2)
         else (case edge_text e of
                 Some lit \<Rightarrow> write_close k fd lit t2
               | None \<Rightarrow> (False, t2)))"
  unfolding gpio_set_edge_def write_close_eq
  by (simp add: Let_def split_def sys_access_def sys_open_def cmd_buf_paths edge_text_def
      eq_commute [of "- 1"])

lemma gpio_set_direction_run:
  "gpio_set_direction k pin d t =
     (let a = k_access k t (fmt_gpio pin) F_OK;
          t1 = t @ [EAccess (fmt_gpio pin) F_OK a];
          fd = k_open k t1 (fmt_direction pin) {O_WRONLY};
          t2 = t1 @ [EOpen (fmt_direction pin) {O_WRONLY} fd]
      in if a = - 1 then (False, t1)
         else if fd < 0 then (False, t2)
         else (case direction_text d of
                 Some lit \<Rightarrow> write_close k fd lit t2
               | None \<Rightarrow> (False, t2)))"
  unfolding gpio_set_direction_def write_close_eq
  by (simp add: Let_def split_def sys_access_def sys_open_def cmd_buf_paths direction_text_def
      eq_commute [of "- 1"])

lemma gpio_set_value_run:
  "gpio_set_value k pin v t =
     (let a = k_access k t (fmt_gpio pin) F_OK;
          t1 = t @ [EAccess (fmt_gpio pin) F_OK a];
          fd = k_open k t1 (fmt_value pin) {O_WRONLY};
          t2 = t1 @ [EOpen (fmt_value pin) {O_WRONLY} fd]
      in if a = - 1 then (False, t1)
         else if fd < 0 then (False, t2)
         else (case value_text v of
                 Some lit \<Rightarrow> write_close k fd lit t2
               | None \<Rightarrow> (False, t2)))"
  unfolding gpio_set_value_def write_close_eq
  by (simp add: Let_def split_def sys_access_def sys_open_def cmd_buf_paths value_text_def
      eq_commute [of "- 1"])

lemma gpio_open_run:
  "gpio_open k pin t =
     (let fd = k_open k t (fmt_value pin) {O_RDONLY, O_NONBLOCK};
          t1 = t @ [EOpen (fmt_value pin) {O_RDONLY, O_NONBLOCK} fd]
      in (if fd < 0 then - 1 else fd, t1))"
  unfolding gpio_open_def
  by (simp add: Let_def split_def sys_open_def cmd_buf_paths)

lemma sys_read_one:
  "sys_read k fd [NUL] 1 t =
     (case k_read k t fd 1 of
        None \<Rightarrow> ((- 1, [NUL]), t @ [ERead fd 1 None])
      | Some [] \<Rightarrow> ((0, [NUL]), t @ [ERead fd 1 (Some [])])
      | Some (b # bs) \<Rightarrow> ((1, [b]), t @ [ERead fd 1 (Some [b])]))"
  by (simp add: sys_read_def Let_def split: option.split list.split)

lemma NUL_not_digit: "NUL \<noteq> CHR ''0''" "NUL \<noteq> CHR ''1''"
  by (simp_all add: NUL_def)

lemma gpio_get_value_run:
  "gpio_get_value k p pin h t =
     (let a = k_access k t (fmt_gpio pin) F_OK;
          t1 = t @ [EAccess (fmt_gpio pin) F_OK a];
          fd = k_open k t1 (fmt_value pin) {O_RDONLY};
          t2 = t1 @ [EOpen (fmt_value pin) {O_RDONLY} fd];
          rd = k_read k t2 fd 1;
          t3 = t2 @ [ERead fd 1 (map_option (take 1) rd)];
          c = k_close k t3 fd;
          t4 = t3 @ [EClose fd c]
      in if p = NULL then (False, h, t)
         else if a = - 1 then (False, h, t1)
         else if fd < 0 then (False, h, t2)
         else (case rd of
                 None \<Rightarrow> (False, h, t4)
               | Some bs \<Rightarrow>
                   if take 1 bs = ''0'' then (c \<noteq> - 1, h(p := E_GPIO_LOW), t4)
                   else if take 1 bs = ''1'' then (c \<noteq> - 1, h(p := E_GPIO_HIGH), t4)
                   else (False, h, t4)))"
  unfolding gpio_get_value_def
  apply (simp only: Let_def split_def sys_access_def sys_open_def sys_close_def cmd_buf_paths
      fst_conv snd_conv sys_read_one)
  apply (simp add: NUL_not_digit split: option.split list.split)
  done


lemma fitsI: "length s < CMD_BUF_MAX_LEN \<Longrightarrow> NUL \<notin> set s \<Longrightarrow> fits s"
  by (simp add: fits_def c_str_snprintf)

text \<open>The formatted texts for pin 17, used in the concrete runs below.\<close>

lemma fmt_17:
  "fmt_gpio 17 = ''/sys/class/gpio/gpio17''"
  "fmt_direction 17 = ''/sys/class/gpio/gpio17/direction''"
  "fmt_value 17 = ''/sys/class/gpio/gpio17/value''"
  "fmt_edge 17 = ''/sys/class/gpio/gpio17/edge''"
  "fmt_num 17 = ''17''"
  "fmt_export = ''/sys/class/gpio/export''"
  "fmt_unexport = ''/sys/class/gpio/unexport''"
  by (simp_all add: fmt_gpio_def fmt_direction_def fmt_value_def fmt_edge_def fmt_num_def
      fmt_export_def fmt_unexport_def SYS_GPIO_DIR_def fmt_d_def dec_nat.simps)

section \<open>Decimal representation and the paths of a log\<close>

lemma digit_value_nth: "d < 10 \<Longrightarrow> digit_value (''0123456789'' ! d) = d"
proof -
  assume "d < 10"
  then have "d \<in> {0, 1, 2, 3, 4, 5, 6, 7, 8, 9}" by auto
  then show ?thesis by (auto simp: digit_value_def)
qed

lemma digit_nth_in: "d < 10 \<Longrightarrow> ''0123456789'' ! d \<in> set ''0123456789''"
  by (rule nth_mem) simp

lemma digit_nth_zero: "d < 10 \<Longrightarrow> ''0123456789'' ! d = CHR ''0'' \<longleftrightarrow> d = 0"
proof -
  assume "d < 10"
  then have "d \<in> {0, 1, 2, 3, 4, 5, 6, 7, 8, 9}" by auto
  then show ?thesis by auto
qed

lemma dec_nat_nonempty: "dec_nat n \<noteq> []"
  by (subst dec_nat.simps) simp

lemma dec_nat_digits: "list_all (\<lambda>c. c \<in> set ''0123456789'') (dec_nat n)"
proof (induction n rule: dec_nat.induct)
  case (1 n)
  show ?case
  proof (cases "n < 10")
    case True
    then show ?thesis using digit_nth_in [of n] by (subst dec_nat.simps) simp
  next
    case False
    with 1 have "list_all (\<lambda>c. c \<in> set ''0123456789'') (dec_nat (n div 10))" by simp
    moreover have "''0123456789'' ! (n mod 10) \<in> set ''0123456789''"
      by (rule digit_nth_in) simp
    ultimately show ?thesis using False by (subst dec_nat.simps) simp
  qed
qed

lemma dec_nat_value: "foldl (\<lambda>v c. 10 * v + digit_value c) 0 (dec_nat n) = n"
proof (induction n rule: dec_nat.induct)
  case (1 n)
  show ?case
  proof (cases "n < 10")
    case True
    then show ?thesis by (subst dec_nat.simps) (simp add: digit_value_nth)
  next
    case False
    with 1 have "foldl (\<lambda>v c. 10 * v + digit_value c) 0 (dec_nat (n div 10)) = n div 10"
      by simp
    then show ?thesis using False
      by (subst dec_nat.simps) (simp add: digit_value_nth)
  qed
qed

lemma dec_nat_zero: "dec_nat n = ''0'' \<Longrightarrow> n = 0"
  using dec_nat_value [of n] by (simp add: digit_value_def)

lemma dec_nat_no_leading_zero: "dec_nat n = ''0'' \<or> hd (dec_nat n) \<noteq> CHR ''0''"
proof (induction n rule: dec_nat.induct)
  case (1 n)
  show ?case
  proof (cases "n < 10")
    case True
    then show ?thesis using digit_nth_zero [of n]
      by (subst (1 2) dec_nat.simps) auto
  next
    case False
    with 1 have "dec_nat (n div 10) = ''0'' \<or> hd (dec_nat (n div 10)) \<noteq> CHR ''0''" by simp
    moreover from False have "n div 10 \<noteq> 0" by simp
    then have "dec_nat (n div 10) \<noteq> ''0''" using dec_nat_zero [of "n div 10"] by auto
    ultimately have "hd (dec_nat (n div 10)) \<noteq> CHR ''0''" by simp
    then show ?thesis using False dec_nat_nonempty [of "n div 10"]
      by (subst (1 2) dec_nat.simps) simp
  qed
qed

lemma fmt_num_decimal: "decimal_of (unat gpio_num) (fmt_num gpio_num)"
proof -
  have eq: "fmt_num gpio_num = dec_nat (unat gpio_num)"
    by (simp add: fmt_num_def fmt_d_def)
  show ?thesis
    unfolding decimal_of_def eq
    by (intro conjI dec_nat_nonempty dec_nat_digits dec_nat_value dec_nat_no_leading_zero)
qed

lemma fmt_literal:
  "fmt_gpio gpio_num = ''/sys/class/gpio/gpio'' @ fmt_num gpio_num"
  "fmt_direction gpio_num = ''/sys/class/gpio/gpio'' @ fmt_num gpio_num @ ''/direction''"
  "fmt_value gpio_num = ''/sys/class/gpio/gpio'' @ fmt_num gpio_num @ ''/value''"
  "fmt_edge gpio_num = ''/sys/class/gpio/gpio'' @ fmt_num gpio_num @ ''/edge''"
  "fmt_export = ''/sys/class/gpio/export''"
  "fmt_unexport = ''/sys/class/gpio/unexport''"
  by (simp_all add: fmt_gpio_def fmt_direction_def fmt_value_def fmt_edge_def fmt_num_def
      fmt_export_def fmt_unexport_def SYS_GPIO_DIR_def)

lemma paths_of_append: "paths_of (t @ es) = paths_of t @ paths_of es"
  by (simp add: paths_of_def)

lemma write_ret_bounds: "- 1 \<le> write_ret ans count" "write_ret ans count \<le> int count"
  by (simp_all add: write_ret_def split: option.split)

lemma paths_of_ops:
  "paths_of (snd (gpio_export k gpio_num t)) \<in>
     {paths_of t @ [fmt_gpio gpio_num], paths_of t @ [fmt_gpio gpio_num, fmt_export]}"
  "paths_of (snd (gpio_unexport k gpio_num t)) \<in>
     {paths_of t @ [fmt_gpio gpio_num], paths_of t @ [fmt_gpio gpio_num, fmt_unexport]}"
  "paths_of (snd (gpio_set_direction k gpio_num direction t)) \<in>
     {paths_of t @ [fmt_gpio gpio_num], paths_of t @ [fmt_gpio gpio_num, fmt_direction gpio_num]}"
  "paths_of (snd (gpio_set_value k gpio_num val t)) \<in>
     {paths_of t @ [fmt_gpio gpio_num], paths_of t @ [fmt_gpio gpio_num, fmt_value gpio_num]}"
  "paths_of (snd (gpio_set_edge k gpio_num edge t)) \<in>
     {paths_of t @ [fmt_gpio gpio_num], paths_of t @ [fmt_gpio gpio_num, fmt_edge gpio_num]}"
  "paths_of (snd (snd (gpio_get_value k p gpio_num h t))) \<in>
     {paths_of t, paths_of t @ [fmt_gpio gpio_num],
      paths_of t @ [fmt_gpio gpio_num, fmt_value gpio_num]}"
  "paths_of (snd (gpio_open k gpio_num t)) = paths_of t @ [fmt_value gpio_num]"
  by (simp_all add: gpio_export_run gpio_unexport_run gpio_set_direction_run gpio_set_value_run
      gpio_set_edge_run gpio_get_value_run gpio_open_run write_close_def Let_def paths_of_append
      paths_of_def split: option.split)

text \<open>The decimal text of the largest pin number.\<close>

lemma fmt_65535:
  "fmt_num 65535 = ''65535''"
  by (simp add: fmt_num_def fmt_d_def dec_nat.simps)


section \<open>The claims\<close>

subsection \<open>Operations on a pin that is not exported\<close>

text \<open>
  Claim C3. For every pin whose directory \<^verbatim>\<open>/sys/class/gpio/gpioN\<close> does not exist
  (\<^verbatim>\<open>access\<close> answers \<open>-1\<close>), each of \<open>gpio_set_direction\<close>, \<open>gpio_set_value\<close>,
  \<open>gpio_set_edge\<close> and \<open>gpio_get_value\<close> returns false, whatever its other
  arguments, and the only system call it makes is that \<^verbatim>\<open>access\<close>: the per-pin
  file is not opened and nothing is written. (With a null output pointer
  \<open>gpio_get_value\<close> does not even make that call.)
\<close>

theorem not_exported_fails_without_open_or_write:
  assumes "k_access k t (fmt_gpio gpio_num) F_OK = - 1"
  shows "gpio_set_direction k gpio_num direction t = (False, t @ [EAccess (fmt_gpio gpio_num) F_OK (- 1)])
       \<and> gpio_set_value k gpio_num val t = (False, t @ [EAccess (fmt_gpio gpio_num) F_OK (- 1)])
       \<and> gpio_set_edge k gpio_num edge t = (False, t @ [EAccess (fmt_gpio gpio_num) F_OK (- 1)])
       \<and> gpio_get_value k p gpio_num h t =
           (False, h, if p = NULL then t else t @ [EAccess (fmt_gpio gpio_num) F_OK (- 1)])"
  using assms
  by (simp add: gpio_set_direction_run gpio_set_value_run gpio_set_edge_run gpio_get_value_run Let_def)

theorem not_exported_fails_without_open_or_write_witness:
  "k_access (scripted (- 1) 3 2 (Some ''1'') 0) [] (fmt_gpio 17) F_OK = - 1
   \<and> gpio_set_direction (scripted (- 1) 3 2 (Some ''1'') 0) 17 E_GPIO_OUT [] =
       (False, [EAccess ''/sys/class/gpio/gpio17'' F_OK (- 1)])
   \<and> gpio_set_value (scripted (- 1) 3 2 (Some ''1'') 0) 17 E_GPIO_HIGH [] =
       (False, [EAccess ''/sys/class/gpio/gpio17'' F_OK (- 1)])
   \<and> gpio_set_edge (scripted (- 1) 3 2 (Some ''1'') 0) 17 E_GPIO_BOTH [] =
       (False, [EAccess ''/sys/class/gpio/gpio17'' F_OK (- 1)])
   \<and> gpio_get_value (scripted (- 1) 3 2 (Some ''1'') 0) 1 17 (\<lambda>a. 0) [] =
       (False, (\<lambda>a. 0), [EAccess ''/sys/class/gpio/gpio17'' F_OK (- 1)])"
proof -
  have acc: "k_access (scripted (- 1) 3 2 (Some ''1'') 0) [] (fmt_gpio 17) F_OK = - 1"
    by (simp add: scripted_def)
  from not_exported_fails_without_open_or_write [OF acc, of E_GPIO_OUT E_GPIO_HIGH E_GPIO_BOTH 1 "\<lambda>a. 0"]
  show ?thesis using acc by (simp add: fmt_17 NULL_def)
qed

subsection \<open>gpio\_open\<close>

text \<open>
  Claim C7. For every pin, \<open>gpio_open\<close> makes exactly one system call: it opens
  \<^verbatim>\<open>/sys/class/gpio/gpioN/value\<close>, where \<open>N\<close> is the decimal representation of
  the pin number, with the flags \<^verbatim>\<open>O_RDONLY | O_NONBLOCK\<close>. When the kernel
  answers with a negative value (the open failed, as it does for a pin whose
  value file does not exist) the result is the sentinel \<open>-1\<close>; otherwise the
  result is the descriptor the kernel returned, which is non-negative.
\<close>

theorem gpio_open_result:
  "gpio_open k gpio_num t =
     ((if k_open k t (fmt_value gpio_num) {O_RDONLY, O_NONBLOCK} < 0 then - 1
       else k_open k t (fmt_value gpio_num) {O_RDONLY, O_NONBLOCK}),
      t @ [EOpen (fmt_value gpio_num) {O_RDONLY, O_NONBLOCK}
             (k_open k t (fmt_value gpio_num) {O_RDONLY, O_NONBLOCK})])
   \<and> (fst (gpio_open k gpio_num t) = - 1 \<or> 0 \<le> fst (gpio_open k gpio_num t))
   \<and> fmt_value gpio_num = ''/sys/class/gpio/gpio'' @ fmt_num gpio_num @ ''/value''
   \<and> decimal_of (unat gpio_num) (fmt_num gpio_num)"
  by (simp add: gpio_open_run Let_def fmt_literal fmt_num_decimal)

text \<open>
  Runs for pins 17, 4 and 65535: an open that returns descriptor 3 or 0, and
  opens that fail with \<open>-1\<close> and \<open>-2\<close>.
\<close>

theorem gpio_open_result_witness:
  "gpio_open (scripted 0 3 0 None 0) 17 [] =
     (3, [EOpen ''/sys/class/gpio/gpio17/value'' {O_RDONLY, O_NONBLOCK} 3])
   \<and> gpio_open (scripted 0 (- 1) 0 None 0) 17 [] =
     (- 1, [EOpen ''/sys/class/gpio/gpio17/value'' {O_RDONLY, O_NONBLOCK} (- 1)])
   \<and> gpio_open (scripted 0 (- 2) 0 None 0) 4 [] =
     (- 1, [EOpen ''/sys/class/gpio/gpio4/value'' {O_RDONLY, O_NONBLOCK} (- 2)])
   \<and> gpio_open (scripted 0 0 0 None 0) 65535 [] =
     (0, [EOpen ''/sys/class/gpio/gpio65535/value'' {O_RDONLY, O_NONBLOCK} 0])
   \<and> decimal_of 17 ''17'' \<and> decimal_of 4 ''4'' \<and> decimal_of 65535 ''65535''"
proof -
  have nums: "fmt_num 17 = ''17''" "fmt_num 4 = ''4''" "fmt_num 65535 = ''65535''"
    by (simp_all add: fmt_num_def fmt_d_def dec_nat.simps)
  have unats: "unat (17 :: uint16_t) = 17" "unat (4 :: uint16_t) = 4"
    "unat (65535 :: uint16_t) = 65535"
    by simp_all
  note r17 = gpio_open_result [where gpio_num = 17 and t = "[]"]
  note r4 = gpio_open_result [where gpio_num = 4 and t = "[]" and k = "scripted 0 (- 2) 0 None 0"]
  note r65535 = gpio_open_result [where gpio_num = 65535 and t = "[]" and k = "scripted 0 0 0 None 0"]
  have paths: "fmt_value 17 = ''/sys/class/gpio/gpio17/value''"
    "fmt_value 4 = ''/sys/class/gpio/gpio4/value''"
    "fmt_value 65535 = ''/sys/class/gpio/gpio65535/value''"
    using r17 [where k = "scripted 0 3 0 None 0"] r4 r65535 by (simp_all add: nums)
  have decs: "decimal_of 17 ''17''" "decimal_of 4 ''4''" "decimal_of 65535 ''65535''"
    using r17 [where k = "scripted 0 3 0 None 0"] r4 r65535 by (simp_all add: nums unats)
  have runs: "gpio_open (scripted 0 3 0 None 0) 17 [] =
     (3, [EOpen ''/sys/class/gpio/gpio17/value'' {O_RDONLY, O_NONBLOCK} 3])"
    "gpio_open (scripted 0 (- 1) 0 None 0) 17 [] =
     (- 1, [EOpen ''/sys/class/gpio/gpio17/value'' {O_RDONLY, O_NONBLOCK} (- 1)])"
    "gpio_open (scripted 0 (- 2) 0 None 0) 4 [] =
     (- 1, [EOpen ''/sys/class/gpio/gpio4/value'' {O_RDONLY, O_NONBLOCK} (- 2)])"
    "gpio_open (scripted 0 0 0 None 0) 65535 [] =
     (0, [EOpen ''/sys/class/gpio/gpio65535/value'' {O_RDONLY, O_NONBLOCK} 0])"
    using r17 [where k = "scripted 0 3 0 None 0"] r17 [where k = "scripted 0 (- 1) 0 None 0"]
      r4 r65535
    by (simp_all add: paths scripted_def)
  from runs decs show ?thesis by (simp only: simp_thms)
qed

subsection \<open>The null output pointer\<close>

text \<open>
  Claim C9. \<open>gpio_get_value\<close> called with a null output pointer returns false at
  once: the log of system calls is unchanged (no \<^verbatim>\<open>access\<close>, no \<^verbatim>\<open>open\<close>, no
  \<^verbatim>\<open>read\<close>) and so is the heap.
\<close>

theorem gpio_get_value_null_pointer:
  "gpio_get_value k NULL gpio_num h t = (False, h, t)"
  by (simp add: gpio_get_value_def)

subsection \<open>The command buffer\<close>

text \<open>
  Claim C10. For every \<^verbatim>\<open>uint16_t\<close> pin number, each text the source formats into
  the command buffer fits the 60 bytes together with its terminating NUL, so
  \<^verbatim>\<open>snprintf\<close> stores it whole and returns its length. The texts are
  \<^verbatim>\<open>/sys/class/gpio/gpioN\<close>, that path followed by \<^verbatim>\<open>/direction\<close>, \<^verbatim>\<open>/value\<close> or
  \<^verbatim>\<open>/edge\<close>, the export and unexport files, and \<open>N\<close> itself, where \<open>N\<close> is the
  decimal representation of the pin number. Every operation therefore acts on
  exactly these paths: whatever the kernel answers, the paths an operation hands
  to \<^verbatim>\<open>access\<close> and \<^verbatim>\<open>open\<close> are the pin's directory, followed (if the
  operation gets that far) by the one file the operation is for.
\<close>

theorem operations_use_untruncated_paths:
  "decimal_of (unat gpio_num) (fmt_num gpio_num)
   \<and> fmt_gpio gpio_num = ''/sys/class/gpio/gpio'' @ fmt_num gpio_num
   \<and> fmt_direction gpio_num = ''/sys/class/gpio/gpio'' @ fmt_num gpio_num @ ''/direction''
   \<and> fmt_value gpio_num = ''/sys/class/gpio/gpio'' @ fmt_num gpio_num @ ''/value''
   \<and> fmt_edge gpio_num = ''/sys/class/gpio/gpio'' @ fmt_num gpio_num @ ''/edge''
   \<and> fmt_export = ''/sys/class/gpio/export''
   \<and> fmt_unexport = ''/sys/class/gpio/unexport''
   \<and> fits (fmt_gpio gpio_num) \<and> fits (fmt_direction gpio_num) \<and> fits (fmt_value gpio_num)
   \<and> fits (fmt_edge gpio_num) \<and> fits fmt_export \<and> fits fmt_unexport \<and> fits (fmt_num gpio_num)
   \<and> paths_of (snd (gpio_export k gpio_num t)) \<in>
        {paths_of t @ [fmt_gpio gpio_num], paths_of t @ [fmt_gpio gpio_num, fmt_export]}
   \<and> paths_of (snd (gpio_unexport k gpio_num t)) \<in>
        {paths_of t @ [fmt_gpio gpio_num], paths_of t @ [fmt_gpio gpio_num, fmt_unexport]}
   \<and> paths_of (snd (gpio_set_direction k gpio_num direction t)) \<in>
        {paths_of t @ [fmt_gpio gpio_num], paths_of t @ [fmt_gpio gpio_num, fmt_direction gpio_num]}
   \<and> paths_of (snd (gpio_set_value k gpio_num val t)) \<in>
        {paths_of t @ [fmt_gpio gpio_num], paths_of t @ [fmt_gpio gpio_num, fmt_value gpio_num]}
   \<and> paths_of (snd (gpio_set_edge k gpio_num edge t)) \<in>
        {paths_of t @ [fmt_gpio gpio_num], paths_of t @ [fmt_gpio gpio_num, fmt_edge gpio_num]}
   \<and> paths_of (snd (snd (gpio_get_value k p gpio_num h t))) \<in>
        {paths_of t, paths_of t @ [fmt_gpio gpio_num],
         paths_of t @ [fmt_gpio gpio_num, fmt_value gpio_num]}
   \<and> paths_of (snd (gpio_open k gpio_num t)) = paths_of t @ [fmt_value gpio_num]"
  by (intro conjI fmt_num_decimal fmt_literal paths_of_ops fitsI fmt_lengths fmt_no_NUL
      fmt_num_no_NUL)

text \<open>
  Runs for pin 65535, whose paths are the longest (35 characters for the
  direction file), and one for pin 0.
\<close>

theorem operations_use_untruncated_paths_witness:
  "decimal_of 65535 ''65535''
   \<and> length ''/sys/class/gpio/gpio65535/direction'' + 1 \<le> CMD_BUF_MAX_LEN
   \<and> gpio_export (scripted (- 1) 3 5 None 0) 65535 [] =
       (True, [EAccess ''/sys/class/gpio/gpio65535'' F_OK (- 1),
               EOpen ''/sys/class/gpio/export'' {O_WRONLY} 3,
               EWrite 3 ''65535'' 5,
               EClose 3 0])
   \<and> gpio_unexport (scripted 0 3 5 None 0) 65535 [] =
       (True, [EAccess ''/sys/class/gpio/gpio65535'' F_OK 0,
               EOpen ''/sys/class/gpio/unexport'' {O_WRONLY} 3,
               EWrite 3 ''65535'' 5,
               EClose 3 0])
   \<and> gpio_set_direction (scripted 0 3 3 None 0) 65535 E_GPIO_OUT [] =
       (True, [EAccess ''/sys/class/gpio/gpio65535'' F_OK 0,
               EOpen ''/sys/class/gpio/gpio65535/direction'' {O_WRONLY} 3,
               EWrite 3 ''out'' 3,
               EClose 3 0])
   \<and> gpio_set_value (scripted 0 3 1 None 0) 65535 E_GPIO_HIGH [] =
       (True, [EAccess ''/sys/class/gpio/gpio65535'' F_OK 0,
               EOpen ''/sys/class/gpio/gpio65535/value'' {O_WRONLY} 3,
               EWrite 3 ''1'' 1,
               EClose 3 0])
   \<and> gpio_set_edge (scripted 0 3 7 None 0) 65535 E_GPIO_FALLING [] =
       (True, [EAccess ''/sys/class/gpio/gpio65535'' F_OK 0,
               EOpen ''/sys/class/gpio/gpio65535/edge'' {O_WRONLY} 3,
               EWrite 3 ''falling'' 7,
               EClose 3 0])
   \<and> gpio_get_value (scripted 0 3 0 (Some ''1'') 0) 1 65535 (\<lambda>a. 0) [] =
       (True, (\<lambda>a. 0)(1 := E_GPIO_HIGH),
        [EAccess ''/sys/class/gpio/gpio65535'' F_OK 0,
         EOpen ''/sys/class/gpio/gpio65535/value'' {O_RDONLY} 3,
         ERead 3 1 (Some ''1''),
         EClose 3 0])
   \<and> gpio_open (scripted 0 3 0 None 0) 65535 [] =
       (3, [EOpen ''/sys/class/gpio/gpio65535/value'' {O_RDONLY, O_NONBLOCK} 3])
   \<and> gpio_open (scripted 0 3 0 None 0) 0 [] =
       (3, [EOpen ''/sys/class/gpio/gpio0/value'' {O_RDONLY, O_NONBLOCK} 3])"
proof -
  have n: "unat (65535 :: uint16_t) = 65535" by simp
  note u = operations_use_untruncated_paths [where gpio_num = 65535
      and k = "scripted 0 3 0 None 0" and t = "[]" and direction = E_GPIO_OUT
      and val = E_GPIO_HIGH and edge = E_GPIO_FALLING and p = 1 and h = "\<lambda>a. 0"]
  from u have d: "decimal_of (unat (65535 :: uint16_t)) (fmt_num 65535)"
    by (elim conjE) assumption
  from u have l: "fmt_direction 65535 = ''/sys/class/gpio/gpio'' @ fmt_num 65535 @ ''/direction''"
    by (elim conjE) assumption
  from u have f: "fits (fmt_direction 65535)"
    by (elim conjE) assumption
  from d have d': "decimal_of 65535 ''65535''"
    by (simp add: n fmt_65535)
  from f have "length (fmt_direction 65535) + 1 \<le> CMD_BUF_MAX_LEN"
    by (simp add: fits_def)
  then have l': "length ''/sys/class/gpio/gpio65535/direction'' + 1 \<le> CMD_BUF_MAX_LEN"
    unfolding l fmt_65535 by simp
  from d' l' have untruncated: "decimal_of 65535 ''65535''
      \<and> length ''/sys/class/gpio/gpio65535/direction'' + 1 \<le> CMD_BUF_MAX_LEN" ..
  have zero: "fmt_num 0 = ''0''"
    by (simp add: fmt_num_def fmt_d_def dec_nat.simps)
  have texts: "direction_text E_GPIO_OUT = Some ''out''" "value_text E_GPIO_HIGH = Some ''1''"
    "edge_text E_GPIO_FALLING = Some ''falling''"
    by (simp_all add: direction_text_def value_text_def edge_text_def
        E_GPIO_IN_def E_GPIO_OUT_def E_GPIO_LOW_def E_GPIO_HIGH_def
        E_GPIO_NONE_def E_GPIO_RISING_def E_GPIO_FALLING_def)
  have runs: "gpio_export (scripted (- 1) 3 5 None 0) 65535 [] =
       (True, [EAccess ''/sys/class/gpio/gpio65535'' F_OK (- 1),
               EOpen ''/sys/class/gpio/export'' {O_WRONLY} 3,
               EWrite 3 ''65535'' 5,
               EClose 3 0])"
    "gpio_unexport (scripted 0 3 5 None 0) 65535 [] =
       (True, [EAccess ''/sys/class/gpio/gpio65535'' F_OK 0,
               EOpen ''/sys/class/gpio/unexport'' {O_WRONLY} 3,
               EWrite 3 ''65535'' 5,
               EClose 3 0])"
    "gpio_set_direction (scripted 0 3 3 None 0) 65535 E_GPIO_OUT [] =
       (True, [EAccess ''/sys/class/gpio/gpio65535'' F_OK 0,
               EOpen ''/sys/class/gpio/gpio65535/direction'' {O_WRONLY} 3,
               EWrite 3 ''out'' 3,
               EClose 3 0])"
    "gpio_set_value (scripted 0 3 1 None 0) 65535 E_GPIO_HIGH [] =
       (True, [EAccess ''/sys/class/gpio/gpio65535'' F_OK 0,
               EOpen ''/sys/class/gpio/gpio65535/value'' {O_WRONLY} 3,
               EWrite 3 ''1'' 1,
               EClose 3 0])"
    "gpio_set_edge (scripted 0 3 7 None 0) 65535 E_GPIO_FALLING [] =
       (True, [EAccess ''/sys/class/gpio/gpio65535'' F_OK 0,
               EOpen ''/sys/class/gpio/gpio65535/edge'' {O_WRONLY} 3,
               EWrite 3 ''falling'' 7,
               EClose 3 0])"
    "gpio_get_value (scripted 0 3 0 (Some ''1'') 0) 1 65535 (\<lambda>a. 0) [] =
       (True, (\<lambda>a. 0)(1 := E_GPIO_HIGH),
        [EAccess ''/sys/class/gpio/gpio65535'' F_OK 0,
         EOpen ''/sys/class/gpio/gpio65535/value'' {O_RDONLY} 3,
         ERead 3 1 (Some ''1''),
         EClose 3 0])"
    "gpio_open (scripted 0 3 0 None 0) 65535 [] =
       (3, [EOpen ''/sys/class/gpio/gpio65535/value'' {O_RDONLY, O_NONBLOCK} 3])"
    "gpio_open (scripted 0 3 0 None 0) 0 [] =
       (3, [EOpen ''/sys/class/gpio/gpio0/value'' {O_RDONLY, O_NONBLOCK} 3])"
    by (simp_all add: gpio_export_run gpio_unexport_run gpio_set_direction_run
        gpio_set_value_run gpio_set_edge_run gpio_get_value_run gpio_open_run Let_def
        scripted_def fmt_literal fmt_65535 zero texts write_close_def write_ret_def NULL_def)
  from untruncated runs show ?thesis by (simp only: simp_thms)
qed

subsection \<open>gpio\_export\<close>

text \<open>
  Claim C2, as amended. \<open>gpio_export\<close> is idempotent: if the directory
  \<^verbatim>\<open>/sys/class/gpio/gpioN\<close> exists (\<^verbatim>\<open>access\<close> answers \<open>0\<close>) it returns true at
  once, having made no other system call, so nothing is written. Otherwise it
  opens \<^verbatim>\<open>/sys/class/gpio/export\<close> write-only; if that fails it returns false;
  if it succeeds it writes the decimal ASCII representation of the pin number,
  closes the descriptor, and returns true when the write took all the bytes and
  the close returned \<open>0\<close>. So it returns false exactly when the open fails, the
  write is short (it returns fewer bytes than requested, the failure \<open>-1\<close>
  included), or the final close does not return \<open>0\<close>.
\<close>

theorem gpio_export_outcome:
  assumes "a = k_access k t (fmt_gpio gpio_num) F_OK"
    and "t1 = t @ [EAccess (fmt_gpio gpio_num) F_OK a]"
    and "fd = k_open k t1 fmt_export {O_WRONLY}"
    and "t2 = t1 @ [EOpen fmt_export {O_WRONLY} fd]"
    and "w = write_ret (k_write k t2 fd (fmt_num gpio_num)) (length (fmt_num gpio_num))"
    and "t3 = t2 @ [EWrite fd (fmt_num gpio_num) w]"
    and "c = k_close k t3 fd"
    and "t4 = t3 @ [EClose fd c]"
  shows "gpio_export k gpio_num t =
           (if a = 0 then (True, t1)
            else if fd < 0 then (False, t2)
            else (w = int (length (fmt_num gpio_num)) \<and> c = 0, t4))
       \<and> (fst (gpio_export k gpio_num t) = False \<longleftrightarrow>
            a \<noteq> 0 \<and> (fd < 0 \<or> w < int (length (fmt_num gpio_num)) \<or> c \<noteq> 0))
       \<and> - 1 \<le> w \<and> w \<le> int (length (fmt_num gpio_num))
       \<and> fmt_gpio gpio_num = ''/sys/class/gpio/gpio'' @ fmt_num gpio_num
       \<and> fmt_export = ''/sys/class/gpio/export''
       \<and> decimal_of (unat gpio_num) (fmt_num gpio_num)"
proof -
  have run: "gpio_export k gpio_num t =
           (if a = 0 then (True, t1)
            else if fd < 0 then (False, t2)
            else (w = int (length (fmt_num gpio_num)) \<and> c = 0, t4))"
    using assms by (simp add: gpio_export_run Let_def)
  have bounds: "- 1 \<le> w" "w \<le> int (length (fmt_num gpio_num))"
    unfolding assms(5) by (rule write_ret_bounds)+
  from bounds have short: "w \<noteq> int (length (fmt_num gpio_num)) \<longleftrightarrow> w < int (length (fmt_num gpio_num))"
    by linarith
  have fails: "fst (gpio_export k gpio_num t) = False \<longleftrightarrow>
            a \<noteq> 0 \<and> (fd < 0 \<or> w < int (length (fmt_num gpio_num)) \<or> c \<noteq> 0)"
    unfolding run short [symmetric] by simp
  from run fails bounds fmt_literal(1) [of gpio_num] fmt_literal(5) fmt_num_decimal [of gpio_num]
  show ?thesis by (simp only: simp_thms)
qed

theorem gpio_export_outcome_witness:
  "gpio_export (scripted (- 1) 3 2 None 0) 17 [] =
     (True, [EAccess ''/sys/class/gpio/gpio17'' F_OK (- 1),
             EOpen ''/sys/class/gpio/export'' {O_WRONLY} 3,
             EWrite 3 ''17'' 2,
             EClose 3 0])
   \<and> gpio_export (scripted 0 3 2 None 0) 17 [] =
     (True, [EAccess ''/sys/class/gpio/gpio17'' F_OK 0])
   \<and> gpio_export (scripted (- 1) (- 1) 2 None 0) 17 [] =
     (False, [EAccess ''/sys/class/gpio/gpio17'' F_OK (- 1),
              EOpen ''/sys/class/gpio/export'' {O_WRONLY} (- 1)])
   \<and> gpio_export (scripted (- 1) 3 1 None 0) 17 [] =
     (False, [EAccess ''/sys/class/gpio/gpio17'' F_OK (- 1),
              EOpen ''/sys/class/gpio/export'' {O_WRONLY} 3,
              EWrite 3 ''17'' 1,
              EClose 3 0])
   \<and> gpio_export (scripted (- 1) 3 (- 1) None 0) 17 [] =
     (False, [EAccess ''/sys/class/gpio/gpio17'' F_OK (- 1),
              EOpen ''/sys/class/gpio/export'' {O_WRONLY} 3,
              EWrite 3 ''17'' (- 1),
              EClose 3 0])
   \<and> gpio_export (scripted (- 1) 3 2 None 5) 17 [] =
     (False, [EAccess ''/sys/class/gpio/gpio17'' F_OK (- 1),
              EOpen ''/sys/class/gpio/export'' {O_WRONLY} 3,
              EWrite 3 ''17'' 2,
              EClose 3 5])"
proof -
  have r1: "gpio_export (scripted (- 1) 3 2 None 0) 17 [] =
     (True, [EAccess ''/sys/class/gpio/gpio17'' F_OK (- 1),
             EOpen ''/sys/class/gpio/export'' {O_WRONLY} 3,
             EWrite 3 ''17'' 2,
             EClose 3 0])"
    using gpio_export_outcome [where k = "scripted (- 1) 3 2 None 0" and t = "[]" and gpio_num = 17,
        OF refl refl refl refl refl refl refl refl, THEN conjunct1]
    by (simp add: scripted_def fmt_17 write_ret_def)
  have r2: "gpio_export(scripted 0 3 2 None 0) 17 [] =
     (True, [EAccess ''/sys/class/gpio/gpio17'' F_OK 0])"
    using gpio_export_outcome [where k = "scripted 0 3 2 None 0" and t = "[]" and gpio_num = 17,
        OF refl refl refl refl refl refl refl refl, THEN conjunct1]
    by (simp add: scripted_def fmt_17 write_ret_def)
  have r3: "gpio_export(scripted (- 1) (- 1) 2 None 0) 17 [] =
     (False, [EAccess ''/sys/class/gpio/gpio17'' F_OK (- 1),
              EOpen ''/sys/class/gpio/export'' {O_WRONLY} (- 1)])"
    using gpio_export_outcome [where k = "scripted (- 1) (- 1) 2 None 0" and t = "[]" and gpio_num = 17,
        OF refl refl refl refl refl refl refl refl, THEN conjunct1]
    by (simp add: scripted_def fmt_17 write_ret_def)
  have r4: "gpio_export(scripted (- 1) 3 1 None 0) 17 [] =
     (False, [EAccess ''/sys/class/gpio/gpio17'' F_OK (- 1),
              EOpen ''/sys/class/gpio/export'' {O_WRONLY} 3,
              EWrite 3 ''17'' 1,
              EClose 3 0])"
    using gpio_export_outcome [where k = "scripted (- 1) 3 1 None 0" and t = "[]" and gpio_num = 17,
        OF refl refl refl refl refl refl refl refl, THEN conjunct1]
    by (simp add: scripted_def fmt_17 write_ret_def)
  have r5: "gpio_export(scripted (- 1) 3 (- 1) None 0) 17 [] =
     (False, [EAccess ''/sys/class/gpio/gpio17'' F_OK (- 1),
              EOpen ''/sys/class/gpio/export'' {O_WRONLY} 3,
              EWrite 3 ''17'' (- 1),
              EClose 3 0])"
    using gpio_export_outcome [where k = "scripted (- 1) 3 (- 1) None 0" and t = "[]" and gpio_num = 17,
        OF refl refl refl refl refl refl refl refl, THEN conjunct1]
    by (simp add: scripted_def fmt_17 write_ret_def)
  have r6: "gpio_export(scripted (- 1) 3 2 None 5) 17 [] =
     (False, [EAccess ''/sys/class/gpio/gpio17'' F_OK (- 1),
              EOpen ''/sys/class/gpio/export'' {O_WRONLY} 3,
              EWrite 3 ''17'' 2,
              EClose 3 5])"
    using gpio_export_outcome [where k = "scripted (- 1) 3 2 None 5" and t = "[]" and gpio_num = 17,
        OF refl refl refl refl refl refl refl refl, THEN conjunct1]
    by (simp add: scripted_def fmt_17 write_ret_def)
  from r1 r2 r3 r4 r5 r6 show ?thesis by (simp only: simp_thms)
qed

text \<open>
  The claim as stated (false exactly when the open fails or the write is short)
  does not hold: here the open returns descriptor 3, the write of \<open>''17''\<close>
  returns the full length 2, the final close returns \<open>-1\<close>, and the result is
  false.
\<close>

theorem gpio_export_close_failure_counterexample:
  "gpio_export (scripted (- 1) 3 2 None (- 1)) 17 [] =
     (False, [EAccess ''/sys/class/gpio/gpio17'' F_OK (- 1),
              EOpen ''/sys/class/gpio/export'' {O_WRONLY} 3,
              EWrite 3 ''17'' 2,
              EClose 3 (- 1)])
   \<and> \<not> (3::int) < 0 \<and> (2::int) = int (length (fmt_num 17))"
  by (simp add: gpio_export_run Let_def scripted_def fmt_17 write_ret_def)

subsection \<open>gpio\_unexport\<close>

text \<open>
  Claim C6. \<open>gpio_unexport\<close> is a no-op on a pin that is not exported: if the
  directory does not exist (\<^verbatim>\<open>access\<close> answers \<open>-1\<close>) it returns true at once,
  having made no other system call. Otherwise it opens
  \<^verbatim>\<open>/sys/class/gpio/unexport\<close> write-only and writes the decimal representation
  of the pin number to it; it returns false when the open fails and when the
  write is short (fewer bytes than requested, the failure \<open>-1\<close> included). These
  are the conditions under which \<open>gpio_export\<close> fails, and the two functions
  share the remaining one as well: a final close that does not return \<open>0\<close>.
\<close>

theorem gpio_unexport_outcome:
  assumes "a = k_access k t (fmt_gpio gpio_num) F_OK"
    and "t1 = t @ [EAccess (fmt_gpio gpio_num) F_OK a]"
    and "fd = k_open k t1 fmt_unexport {O_WRONLY}"
    and "t2 = t1 @ [EOpen fmt_unexport {O_WRONLY} fd]"
    and "w = write_ret (k_write k t2 fd (fmt_num gpio_num)) (length (fmt_num gpio_num))"
    and "t3 = t2 @ [EWrite fd (fmt_num gpio_num) w]"
    and "c = k_close k t3 fd"
    and "t4 = t3 @ [EClose fd c]"
  shows "gpio_unexport k gpio_num t =
           (if a = - 1 then (True, t1)
            else if fd < 0 then (False, t2)
            else (w = int (length (fmt_num gpio_num)) \<and> c = 0, t4))
       \<and> (a \<noteq> - 1 \<and> fd < 0 \<longrightarrow> fst (gpio_unexport k gpio_num t) = False)
       \<and> (a \<noteq> - 1 \<and> w < int (length (fmt_num gpio_num)) \<longrightarrow>
            fst (gpio_unexport k gpio_num t) = False)
       \<and> (fst (gpio_unexport k gpio_num t) = False \<longleftrightarrow>
            a \<noteq> - 1 \<and> (fd < 0 \<or> w < int (length (fmt_num gpio_num)) \<or> c \<noteq> 0))
       \<and> - 1 \<le> w \<and> w \<le> int (length (fmt_num gpio_num))
       \<and> fmt_gpio gpio_num = ''/sys/class/gpio/gpio'' @ fmt_num gpio_num
       \<and> fmt_unexport = ''/sys/class/gpio/unexport''
       \<and> decimal_of (unat gpio_num) (fmt_num gpio_num)"
proof -
  have run: "gpio_unexport k gpio_num t =
           (if a = - 1 then (True, t1)
            else if fd < 0 then (False, t2)
            else (w = int (length (fmt_num gpio_num)) \<and> c = 0, t4))"
    using assms by (simp add: gpio_unexport_run Let_def)
  have bounds: "- 1 \<le> w" "w \<le> int (length (fmt_num gpio_num))"
    unfolding assms(5) by (rule write_ret_bounds)+
  from bounds have short: "w \<noteq> int (length (fmt_num gpio_num)) \<longleftrightarrow> w < int (length (fmt_num gpio_num))"
    by linarith
  have fails: "fst (gpio_unexport k gpio_num t) = False \<longleftrightarrow>
            a \<noteq> - 1 \<and> (fd < 0 \<or> w < int (length (fmt_num gpio_num)) \<or> c \<noteq> 0)"
    unfolding run short [symmetric] by simp
  from fails have open_fails: "a \<noteq> - 1 \<and> fd < 0 \<longrightarrow> fst (gpio_unexport k gpio_num t) = False"
    and short_fails: "a \<noteq> - 1 \<and> w < int (length (fmt_num gpio_num)) \<longrightarrow>
            fst (gpio_unexport k gpio_num t) = False"
    by simp_all
  from run open_fails short_fails fails bounds fmt_literal(1) [of gpio_num] fmt_literal(6)
    fmt_num_decimal [of gpio_num]
  show ?thesis by (simp only: simp_thms)
qed

theorem gpio_unexport_outcome_witness:
  "gpio_unexport (scripted (- 1) 3 2 None 0) 17 [] =
     (True, [EAccess ''/sys/class/gpio/gpio17'' F_OK (- 1)])
   \<and> gpio_unexport (scripted 0 3 2 None 0) 17 [] =
     (True, [EAccess ''/sys/class/gpio/gpio17'' F_OK 0,
             EOpen ''/sys/class/gpio/unexport'' {O_WRONLY} 3,
             EWrite 3 ''17'' 2,
             EClose 3 0])
   \<and> gpio_unexport (scripted 0 (- 1) 2 None 0) 17 [] =
     (False, [EAccess ''/sys/class/gpio/gpio17'' F_OK 0,
              EOpen ''/sys/class/gpio/unexport'' {O_WRONLY} (- 1)])
   \<and> gpio_unexport (scripted 0 3 1 None 0) 17 [] =
     (False, [EAccess ''/sys/class/gpio/gpio17'' F_OK 0,
              EOpen ''/sys/class/gpio/unexport'' {O_WRONLY} 3,
              EWrite 3 ''17'' 1,
              EClose 3 0])
   \<and> gpio_unexport (scripted 0 3 (- 1) None 0) 17 [] =
     (False, [EAccess ''/sys/class/gpio/gpio17'' F_OK 0,
              EOpen ''/sys/class/gpio/unexport'' {O_WRONLY} 3,
              EWrite 3 ''17'' (- 1),
              EClose 3 0])
   \<and> gpio_unexport (scripted 0 3 2 None (- 1)) 17 [] =
     (False, [EAccess ''/sys/class/gpio/gpio17'' F_OK 0,
              EOpen ''/sys/class/gpio/unexport'' {O_WRONLY} 3,
              EWrite 3 ''17'' 2,
              EClose 3 (- 1)])"
proof -
  have r1: "gpio_unexport (scripted (- 1) 3 2 None 0) 17 [] =
     (True, [EAccess ''/sys/class/gpio/gpio17'' F_OK (- 1)])"
    using gpio_unexport_outcome [where k = "scripted (- 1) 3 2 None 0" and t = "[]" and gpio_num = 17,
        OF refl refl refl refl refl refl refl refl, THEN conjunct1]
    by (simp add: scripted_def fmt_17 write_ret_def)
  have r2: "gpio_unexport(scripted 0 3 2 None 0) 17 [] =
     (True, [EAccess ''/sys/class/gpio/gpio17'' F_OK 0,
             EOpen ''/sys/class/gpio/unexport'' {O_WRONLY} 3,
             EWrite 3 ''17'' 2,
             EClose 3 0])"
    using gpio_unexport_outcome [where k = "scripted 0 3 2 None 0" and t = "[]" and gpio_num = 17,
        OF refl refl refl refl refl refl refl refl, THEN conjunct1]
    by (simp add: scripted_def fmt_17 write_ret_def)
  have r3: "gpio_unexport(scripted 0 (- 1) 2 None 0) 17 [] =
     (False, [EAccess ''/sys/class/gpio/gpio17'' F_OK 0,
              EOpen ''/sys/class/gpio/unexport'' {O_WRONLY} (- 1)])"
    using gpio_unexport_outcome [where k = "scripted 0 (- 1) 2 None 0" and t = "[]" and gpio_num = 17,
        OF refl refl refl refl refl refl refl refl, THEN conjunct1]
    by (simp add: scripted_def fmt_17 write_ret_def)
  have r4: "gpio_unexport(scripted 0 3 1 None 0) 17 [] =
     (False, [EAccess ''/sys/class/gpio/gpio17'' F_OK 0,
              EOpen ''/sys/class/gpio/unexport'' {O_WRONLY} 3,
              EWrite 3 ''17'' 1,
              EClose 3 0])"
    using gpio_unexport_outcome [where k = "scripted 0 3 1 None 0" and t = "[]" and gpio_num = 17,
        OF refl refl refl refl refl refl refl refl, THEN conjunct1]
    by (simp add: scripted_def fmt_17 write_ret_def)
  have r5: "gpio_unexport(scripted 0 3 (- 1) None 0) 17 [] =
     (False, [EAccess ''/sys/class/gpio/gpio17'' F_OK 0,
              EOpen ''/sys/class/gpio/unexport'' {O_WRONLY} 3,
              EWrite 3 ''17'' (- 1),
              EClose 3 0])"
    using gpio_unexport_outcome [where k = "scripted 0 3 (- 1) None 0" and t = "[]" and gpio_num = 17,
        OF refl refl refl refl refl refl refl refl, THEN conjunct1]
    by (simp add: scripted_def fmt_17 write_ret_def)
  have r6: "gpio_unexport(scripted 0 3 2 None (- 1)) 17 [] =
     (False, [EAccess ''/sys/class/gpio/gpio17'' F_OK 0,
              EOpen ''/sys/class/gpio/unexport'' {O_WRONLY} 3,
              EWrite 3 ''17'' 2,
              EClose 3 (- 1)])"
    using gpio_unexport_outcome [where k = "scripted 0 3 2 None (- 1)" and t = "[]" and gpio_num = 17,
        OF refl refl refl refl refl refl refl refl, THEN conjunct1]
    by (simp add: scripted_def fmt_17 write_ret_def)
  from r1 r2 r3 r4 r5 r6 show ?thesis by (simp only: simp_thms)
qed

subsection \<open>gpio\_get\_value\<close>

text \<open>
  Claim C1, as amended. For every pin and every non-null output pointer,
  \<open>gpio_get_value\<close> returns false if the pin is not exported (\<^verbatim>\<open>access\<close>
  answers \<open>-1\<close>) or the value file cannot be opened read-only. Otherwise it
  makes exactly one \<^verbatim>\<open>read\<close> of one byte from \<^verbatim>\<open>gpioN/value\<close> and closes the
  descriptor. If the read fails, delivers no byte, or delivers a byte other
  than \<open>0\<close> and \<open>1\<close>, the result is false and the heap is untouched. If the byte
  is \<open>0\<close> or \<open>1\<close> it stores \<open>E_GPIO_LOW\<close> or \<open>E_GPIO_HIGH\<close> through the pointer,
  and returns true unless the final close returns \<open>-1\<close>; in that case it returns
  false with the level already stored.
\<close>

theorem gpio_get_value_outcome:
  assumes "p \<noteq> NULL"
    and "a = k_access k t (fmt_gpio gpio_num) F_OK"
    and "t1 = t @ [EAccess (fmt_gpio gpio_num) F_OK a]"
    and "fd = k_open k t1 (fmt_value gpio_num) {O_RDONLY}"
    and "t2 = t1 @ [EOpen (fmt_value gpio_num) {O_RDONLY} fd]"
    and "rd = k_read k t2 fd 1"
    and "t3 = t2 @ [ERead fd 1 (map_option (take 1) rd)]"
    and "c = k_close k t3 fd"
    and "t4 = t3 @ [EClose fd c]"
  shows "gpio_get_value k p gpio_num h t =
           (if a = - 1 then (False, h, t1)
            else if fd < 0 then (False, h, t2)
            else (case rd of
                    None \<Rightarrow> (False, h, t4)
                  | Some bs \<Rightarrow>
                      if take 1 bs = ''0'' then (c \<noteq> - 1, h(p := E_GPIO_LOW), t4)
                      else if take 1 bs = ''1'' then (c \<noteq> - 1, h(p := E_GPIO_HIGH), t4)
                      else (False, h, t4)))"
  using assms(1) unfolding assms(2-9)
  by (simp only: gpio_get_value_run Let_def if_False)

theorem gpio_get_value_outcome_witness:
  "(1::nat) \<noteq> NULL
   \<and> gpio_get_value (scripted 0 3 2 (Some ''1'') 0) 1 17 (\<lambda>a. 0) [] =
     (True, (\<lambda>a. 0)(1 := E_GPIO_HIGH),
      [EAccess ''/sys/class/gpio/gpio17'' F_OK 0,
       EOpen ''/sys/class/gpio/gpio17/value'' {O_RDONLY} 3,
       ERead 3 1 (Some ''1''),
       EClose 3 0])
   \<and> gpio_get_value (scripted 0 3 2 (Some ''0'') 0) 1 17 (\<lambda>a. 1) [] =
     (True, (\<lambda>a. 1)(1 := E_GPIO_LOW),
      [EAccess ''/sys/class/gpio/gpio17'' F_OK 0,
       EOpen ''/sys/class/gpio/gpio17/value'' {O_RDONLY} 3,
       ERead 3 1 (Some ''0''),
       EClose 3 0])
   \<and> gpio_get_value (scripted 0 3 2 (Some ''x'') 0) 1 17 (\<lambda>a. 0) [] =
     (False, (\<lambda>a. 0),
      [EAccess ''/sys/class/gpio/gpio17'' F_OK 0,
       EOpen ''/sys/class/gpio/gpio17/value'' {O_RDONLY} 3,
       ERead 3 1 (Some ''x''),
       EClose 3 0])
   \<and> gpio_get_value (scripted 0 3 2 (Some []) 0) 1 17 (\<lambda>a. 0) [] =
     (False, (\<lambda>a. 0),
      [EAccess ''/sys/class/gpio/gpio17'' F_OK 0,
       EOpen ''/sys/class/gpio/gpio17/value'' {O_RDONLY} 3,
       ERead 3 1 (Some []),
       EClose 3 0])
   \<and> gpio_get_value (scripted 0 (- 1) 2 (Some ''1'') 0) 1 17 (\<lambda>a. 0) [] =
     (False, (\<lambda>a. 0),
      [EAccess ''/sys/class/gpio/gpio17'' F_OK 0,
       EOpen ''/sys/class/gpio/gpio17/value'' {O_RDONLY} (- 1)])"
proof -
  have p: "(1::nat) \<noteq> NULL" by (simp add: NULL_def)
  note run = gpio_get_value_outcome [where p = 1 and t = "[]" and gpio_num = 17,
      OF p refl refl refl refl refl refl refl refl]
  show ?thesis
    using p run [where k = "scripted 0 3 2 (Some ''1'') 0" and h = "\<lambda>a. 0"]
      run [where k = "scripted 0 3 2 (Some ''0'') 0" and h = "\<lambda>a. 1"]
      run [where k = "scripted 0 3 2 (Some ''x'') 0" and h = "\<lambda>a. 0"]
      run [where k = "scripted 0 3 2 (Some []) 0" and h = "\<lambda>a. 0"]
      run [where k = "scripted 0 (- 1) 2 (Some ''1'') 0" and h = "\<lambda>a. 0"]
    by (simp add: scripted_def fmt_17)
qed

text \<open>
  The claim as stated (a byte \<open>0\<close> or \<open>1\<close> is stored and the result is true)
  does not hold: the pin is exported, the open returns descriptor 3, the byte
  read is \<open>1\<close>, the final close returns \<open>-1\<close>, and the result is false.
\<close>

theorem gpio_get_value_close_failure_counterexample:
  "gpio_get_value (scripted 0 3 2 (Some ''1'') (- 1)) 1 17 (\<lambda>a. 0) [] =
     (False, (\<lambda>a. 0)(1 := E_GPIO_HIGH),
      [EAccess ''/sys/class/gpio/gpio17'' F_OK 0,
       EOpen ''/sys/class/gpio/gpio17/value'' {O_RDONLY} 3,
       ERead 3 1 (Some ''1''),
       EClose 3 (- 1)])"
  by (simp add: gpio_get_value_run Let_def scripted_def fmt_17 NULL_def)

text \<open>
  Claim C8, as amended. Whenever \<open>gpio_get_value\<close> returns false, the object
  designated by its output pointer (indeed the whole heap) is left unchanged,
  unless the failure is that of the final close: then the last system call is a
  \<^verbatim>\<open>close\<close> that returned \<open>-1\<close>. The function writes through the pointer only
  after a one-byte read that delivered \<open>0\<close> or \<open>1\<close>, it stores \<open>E_GPIO_LOW\<close> or
  \<open>E_GPIO_HIGH\<close> accordingly, and nothing but the close follows.
\<close>

theorem gpio_get_value_frame:
  assumes "gpio_get_value k p gpio_num h t = (r, h', t')"
  shows "(h' = h
          \<or> (\<exists>pre fd c. t' = pre @ [ERead fd 1 (Some ''0''), EClose fd c]
                \<and> h' = h(p := E_GPIO_LOW) \<and> r = (c \<noteq> - 1))
          \<or> (\<exists>pre fd c. t' = pre @ [ERead fd 1 (Some ''1''), EClose fd c]
                \<and> h' = h(p := E_GPIO_HIGH) \<and> r = (c \<noteq> - 1)))
       \<and> (r = False \<and> h' \<noteq> h \<longrightarrow> (\<exists>pre fd. t' = pre @ [EClose fd (- 1)]))"
proof -
  define a where "a = k_access k t (fmt_gpio gpio_num) F_OK"
  define t1 where "t1 = t @ [EAccess (fmt_gpio gpio_num) F_OK a]"
  define fd where "fd = k_open k t1 (fmt_value gpio_num) {O_RDONLY}"
  define t2 where "t2 = t1 @ [EOpen (fmt_value gpio_num) {O_RDONLY} fd]"
  define rd where "rd = k_read k t2 fd 1"
  define t3 where "t3 = t2 @ [ERead fd 1 (map_option (take 1) rd)]"
  define c where "c = k_close k t3 fd"
  define t4 where "t4 = t3 @ [EClose fd c]"
  have run: "(r, h', t') =
           (if p = NULL then (False, h, t)
            else if a = - 1 then (False, h, t1)
            else if fd < 0 then (False, h, t2)
            else (case rd of
                    None \<Rightarrow> (False, h, t4)
                  | Some bs \<Rightarrow>
                      if take 1 bs = ''0'' then (c \<noteq> - 1, h(p := E_GPIO_LOW), t4)
                      else if take 1 bs = ''1'' then (c \<noteq> - 1, h(p := E_GPIO_HIGH), t4)
                      else (False, h, t4)))"
    unfolding assms [symmetric] t4_def t3_def c_def rd_def t2_def fd_def t1_def a_def
    by (simp only: gpio_get_value_run Let_def)
  have shape: "t4 = t2 @ [ERead fd 1 (map_option (take 1) rd), EClose fd c]"
    by (simp add: t4_def t3_def)
  show ?thesis
  proof (cases "h' = h")
    case True
    then show ?thesis by simp
  next
    case False
    with run obtain bs where rd: "rd = Some bs" and
      bs: "take 1 bs = ''0'' \<or> take 1 bs = ''1''" and t': "t' = t4" and r: "r = (c \<noteq> - 1)"
      by (auto split: if_splits option.splits)
    from bs show ?thesis
    proof
      assume b0: "take 1 bs = ''0''"
      with run rd False have "h' = h(p := E_GPIO_LOW)" by (auto split: if_splits)
      moreover from shape rd b0 t' have "t' = t2 @ [ERead fd 1 (Some ''0''), EClose fd c]" by simp
      moreover from this r have "r = False \<longrightarrow> (\<exists>pre fd'. t' = pre @ [EClose fd' (- 1)])"
        by (auto intro!: exI [where x = "t2 @ [ERead fd 1 (Some ''0'')]"])
      ultimately show ?thesis using r by blast
    next
      assume b1: "take 1 bs = ''1''"
      with run rd False have "h' = h(p := E_GPIO_HIGH)" by (auto split: if_splits)
      moreover from shape rd b1 t' have "t' = t2 @ [ERead fd 1 (Some ''1''), EClose fd c]" by simp
      moreover from this r have "r = False \<longrightarrow> (\<exists>pre fd'. t' = pre @ [EClose fd' (- 1)])"
        by (auto intro!: exI [where x = "t2 @ [ERead fd 1 (Some ''1'')]"])
      ultimately show ?thesis using r by blast
    qed
  qed
qed

theorem gpio_get_value_frame_witness:
  "gpio_get_value (scripted 0 3 2 (Some ''0'') (- 1)) 1 17 (\<lambda>a. 5) [] =
     (False, (\<lambda>a. 5)(1 := E_GPIO_LOW),
      [EAccess ''/sys/class/gpio/gpio17'' F_OK 0,
       EOpen ''/sys/class/gpio/gpio17/value'' {O_RDONLY} 3,
       ERead 3 1 (Some ''0''),
       EClose 3 (- 1)])
   \<and> (\<exists>pre fd.
        [EAccess ''/sys/class/gpio/gpio17'' F_OK 0,
         EOpen ''/sys/class/gpio/gpio17/value'' {O_RDONLY} 3,
         ERead 3 1 (Some ''0''),
         EClose 3 (- 1)] = pre @ [EClose fd (- 1)])"
proof -
  have run: "gpio_get_value (scripted 0 3 2 (Some ''0'') (- 1)) 1 17 (\<lambda>a. 5) [] =
     (False, (\<lambda>a. 5)(1 := E_GPIO_LOW),
      [EAccess ''/sys/class/gpio/gpio17'' F_OK 0,
       EOpen ''/sys/class/gpio/gpio17/value'' {O_RDONLY} 3,
       ERead 3 1 (Some ''0''),
       EClose 3 (- 1)])"
    by (simp add: gpio_get_value_run Let_def scripted_def fmt_17 NULL_def)
  have changed: "(\<lambda>a. 5)(1 := E_GPIO_LOW) \<noteq> (\<lambda>a::nat. 5::int)"
    by (simp add: fun_upd_idem_iff E_GPIO_LOW_def)
  from gpio_get_value_frame [OF run] changed show ?thesis
    using run by blast
qed

text \<open>
  The claim as stated (false implies the output object is unchanged) does not
  hold: the object at address 1 holds 0 before the call; the byte read is \<open>1\<close>,
  the final close returns \<open>-1\<close>; the call returns false and the object holds
  \<open>E_GPIO_HIGH\<close>.
\<close>

theorem gpio_get_value_failure_changes_output_counterexample:
  "fst (gpio_get_value (scripted 0 3 2 (Some ''1'') (- 1)) 1 17 (\<lambda>a. 0) []) = False
   \<and> fst (snd (gpio_get_value (scripted 0 3 2 (Some ''1'') (- 1)) 1 17 (\<lambda>a. 0) [])) 1 = E_GPIO_HIGH
   \<and> (\<lambda>a. 0) (1::nat) \<noteq> E_GPIO_HIGH"
  by (simp add: gpio_get_value_run Let_def scripted_def fmt_17 NULL_def E_GPIO_HIGH_def)

subsection \<open>How the result of write is checked\<close>

text \<open>
  Claim C5, as amended. \<open>gpio_export\<close> and \<open>gpio_unexport\<close> treat a write that
  returns fewer bytes than requested as failure: they close the descriptor and
  return false. The writes in \<open>gpio_set_direction\<close>, \<open>gpio_set_value\<close> and
  \<open>gpio_set_edge\<close> treat only the return value \<open>-1\<close> as failure, so after a
  short but non-negative write those three functions close the descriptor and
  return true, provided that the close does not return \<open>-1\<close>.
\<close>

theorem write_result_handling:
  assumes "a = k_access k t (fmt_gpio gpio_num) F_OK"
    and "t1 = t @ [EAccess (fmt_gpio gpio_num) F_OK a]"
  shows
    "(let fd = k_open k t1 fmt_export {O_WRONLY};
          t2 = t1 @ [EOpen fmt_export {O_WRONLY} fd];
          w = write_ret (k_write k t2 fd (fmt_num gpio_num)) (length (fmt_num gpio_num));
          t3 = t2 @ [EWrite fd (fmt_num gpio_num) w];
          c = k_close k t3 fd
      in a \<noteq> 0 \<and> 0 \<le> fd \<and> w < int (length (fmt_num gpio_num)) \<longrightarrow>
           gpio_export k gpio_num t = (False, t3 @ [EClose fd c]))
   \<and> (let fd = k_open k t1 fmt_unexport {O_WRONLY};
          t2 = t1 @ [EOpen fmt_unexport {O_WRONLY} fd];
          w = write_ret (k_write k t2 fd (fmt_num gpio_num)) (length (fmt_num gpio_num));
          t3 = t2 @ [EWrite fd (fmt_num gpio_num) w];
          c = k_close k t3 fd
      in a \<noteq> - 1 \<and> 0 \<le> fd \<and> w < int (length (fmt_num gpio_num)) \<longrightarrow>
           gpio_unexport k gpio_num t = (False, t3 @ [EClose fd c]))
   \<and> (let fd = k_open k t1 (fmt_direction gpio_num) {O_WRONLY};
          t2 = t1 @ [EOpen (fmt_direction gpio_num) {O_WRONLY} fd];
          w = write_ret (k_write k t2 fd lit) (length lit);
          t3 = t2 @ [EWrite fd lit w];
          c = k_close k t3 fd
      in a \<noteq> - 1 \<and> 0 \<le> fd \<and> direction_text direction = Some lit \<longrightarrow>
           gpio_set_direction k gpio_num direction t = (w \<noteq> - 1 \<and> c \<noteq> - 1, t3 @ [EClose fd c])
           \<and> (0 \<le> w \<and> w < int (length lit) \<and> c \<noteq> - 1 \<longrightarrow>
                fst (gpio_set_direction k gpio_num direction t) = True))
   \<and> (let fd = k_open k t1 (fmt_value gpio_num) {O_WRONLY};
          t2 = t1 @ [EOpen (fmt_value gpio_num) {O_WRONLY} fd];
          w = write_ret (k_write k t2 fd lit) (length lit);
          t3 = t2 @ [EWrite fd lit w];
          c = k_close k t3 fd
      in a \<noteq> - 1 \<and> 0 \<le> fd \<and> value_text val = Some lit \<longrightarrow>
           gpio_set_value k gpio_num val t = (w \<noteq> - 1 \<and> c \<noteq> - 1, t3 @ [EClose fd c])
           \<and> (0 \<le> w \<and> w < int (length lit) \<and> c \<noteq> - 1 \<longrightarrow>
                fst (gpio_set_value k gpio_num val t) = True))
   \<and> (let fd = k_open k t1 (fmt_edge gpio_num) {O_WRONLY};
          t2 = t1 @ [EOpen (fmt_edge gpio_num) {O_WRONLY} fd];
          w = write_ret (k_write k t2 fd lit) (length lit);
          t3 = t2 @ [EWrite fd lit w];
          c = k_close k t3 fd
      in a \<noteq> - 1 \<and> 0 \<le> fd \<and> edge_text edge = Some lit \<longrightarrow>
           gpio_set_edge k gpio_num edge t = (w \<noteq> - 1 \<and> c \<noteq> - 1, t3 @ [EClose fd c])
           \<and> (0 \<le> w \<and> w < int (length lit) \<and> c \<noteq> - 1 \<longrightarrow>
                fst (gpio_set_edge k gpio_num edge t) = True))"
proof -
  have e: "(let fd = k_open k t1 fmt_export {O_WRONLY};
          t2 = t1 @ [EOpen fmt_export {O_WRONLY} fd];
          w = write_ret (k_write k t2 fd (fmt_num gpio_num)) (length (fmt_num gpio_num));
          t3 = t2 @ [EWrite fd (fmt_num gpio_num) w];
          c = k_close k t3 fd
      in a \<noteq> 0 \<and> 0 \<le> fd \<and> w < int (length (fmt_num gpio_num)) \<longrightarrow>
           gpio_export k gpio_num t = (False, t3 @ [EClose fd c]))"
    unfolding assms by (simp add: gpio_export_run Let_def)
  have u: "(let fd = k_open k t1 fmt_unexport {O_WRONLY};
          t2 = t1 @ [EOpen fmt_unexport {O_WRONLY} fd];
          w = write_ret (k_write k t2 fd (fmt_num gpio_num)) (length (fmt_num gpio_num));
          t3 = t2 @ [EWrite fd (fmt_num gpio_num) w];
          c = k_close k t3 fd
      in a \<noteq> - 1 \<and> 0 \<le> fd \<and> w < int (length (fmt_num gpio_num)) \<longrightarrow>
           gpio_unexport k gpio_num t = (False, t3 @ [EClose fd c]))"
    unfolding assms by (simp add: gpio_unexport_run Let_def)
  have d: "(let fd = k_open k t1 (fmt_direction gpio_num) {O_WRONLY};
          t2 = t1 @ [EOpen (fmt_direction gpio_num) {O_WRONLY} fd];
          w = write_ret (k_write k t2 fd lit) (length lit);
          t3 = t2 @ [EWrite fd lit w];
          c = k_close k t3 fd
      in a \<noteq> - 1 \<and> 0 \<le> fd \<and> direction_text direction = Some lit \<longrightarrow>
           gpio_set_direction k gpio_num direction t = (w \<noteq> - 1 \<and> c \<noteq> - 1, t3 @ [EClose fd c])
           \<and> (0 \<le> w \<and> w < int (length lit) \<and> c \<noteq> - 1 \<longrightarrow>
                fst (gpio_set_direction k gpio_num direction t) = True))"
    unfolding assms by (auto simp add: gpio_set_direction_run write_close_def Let_def)
  have v: "(let fd = k_open k t1 (fmt_value gpio_num) {O_WRONLY};
          t2 = t1 @ [EOpen (fmt_value gpio_num) {O_WRONLY} fd];
          w = write_ret (k_write k t2 fd lit) (length lit);
          t3 = t2 @ [EWrite fd lit w];
          c = k_close k t3 fd
      in a \<noteq> - 1 \<and> 0 \<le> fd \<and> value_text val = Some lit \<longrightarrow>
           gpio_set_value k gpio_num val t = (w \<noteq> - 1 \<and> c \<noteq> - 1, t3 @ [EClose fd c])
           \<and> (0 \<le> w \<and> w < int (length lit) \<and> c \<noteq> - 1 \<longrightarrow>
                fst (gpio_set_value k gpio_num val t) = True))"
    unfolding assms by (auto simp add: gpio_set_value_run write_close_def Let_def)
  have g: "(let fd = k_open k t1 (fmt_edge gpio_num) {O_WRONLY};
          t2 = t1 @ [EOpen (fmt_edge gpio_num) {O_WRONLY} fd];
          w = write_ret (k_write k t2 fd lit) (length lit);
          t3 = t2 @ [EWrite fd lit w];
          c = k_close k t3 fd
      in a \<noteq> - 1 \<and> 0 \<le> fd \<and> edge_text edge = Some lit \<longrightarrow>
           gpio_set_edge k gpio_num edge t = (w \<noteq> - 1 \<and> c \<noteq> - 1, t3 @ [EClose fd c])
           \<and> (0 \<le> w \<and> w < int (length lit) \<and> c \<noteq> - 1 \<longrightarrow>
                fst (gpio_set_edge k gpio_num edge t) = True))"
    unfolding assms by (auto simp add: gpio_set_edge_run write_close_def Let_def)
  from e u d v g show ?thesis by (simp only: simp_thms)
qed

theorem write_result_handling_witness:
  "gpio_export (scripted (- 1) 3 1 None 0) 17 [] =
     (False, [EAccess ''/sys/class/gpio/gpio17'' F_OK (- 1),
              EOpen ''/sys/class/gpio/export'' {O_WRONLY} 3,
              EWrite 3 ''17'' 1,
              EClose 3 0])
   \<and> gpio_unexport (scripted 0 3 1 None 0) 17 [] =
     (False, [EAccess ''/sys/class/gpio/gpio17'' F_OK 0,
              EOpen ''/sys/class/gpio/unexport'' {O_WRONLY} 3,
              EWrite 3 ''17'' 1,
              EClose 3 0])
   \<and> gpio_set_direction (scripted 0 3 1 None 0) 17 E_GPIO_OUT [] =
     (True, [EAccess ''/sys/class/gpio/gpio17'' F_OK 0,
             EOpen ''/sys/class/gpio/gpio17/direction'' {O_WRONLY} 3,
             EWrite 3 ''out'' 1,
             EClose 3 0])
   \<and> gpio_set_value (scripted 0 3 0 None 0) 17 E_GPIO_HIGH [] =
     (True, [EAccess ''/sys/class/gpio/gpio17'' F_OK 0,
             EOpen ''/sys/class/gpio/gpio17/value'' {O_WRONLY} 3,
             EWrite 3 ''1'' 0,
             EClose 3 0])
   \<and> gpio_set_edge (scripted 0 3 2 None 0) 17 E_GPIO_RISING [] =
     (True, [EAccess ''/sys/class/gpio/gpio17'' F_OK 0,
             EOpen ''/sys/class/gpio/gpio17/edge'' {O_WRONLY} 3,
             EWrite 3 ''rising'' 2,
             EClose 3 0])
   \<and> gpio_set_edge (scripted 0 3 (- 1) None 0) 17 E_GPIO_RISING [] =
     (False, [EAccess ''/sys/class/gpio/gpio17'' F_OK 0,
              EOpen ''/sys/class/gpio/gpio17/edge'' {O_WRONLY} 3,
              EWrite 3 ''rising'' (- 1),
              EClose 3 0])"
proof -
  note run = write_result_handling [where t = "[]" and gpio_num = 17, OF refl refl]
  have texts: "direction_text E_GPIO_OUT = Some ''out''" "value_text E_GPIO_HIGH = Some ''1''"
    "edge_text E_GPIO_RISING = Some ''rising''"
    by (simp_all add: direction_text_def value_text_def edge_text_def
        E_GPIO_IN_def E_GPIO_OUT_def E_GPIO_LOW_def E_GPIO_HIGH_def
        E_GPIO_NONE_def E_GPIO_RISING_def)
  show ?thesis
    using run [where k = "scripted (- 1) 3 1 None 0"]
      run [where k = "scripted 0 3 1 None 0" and direction = E_GPIO_OUT and lit = "''out''"]
      run [where k = "scripted 0 3 0 None 0" and val = E_GPIO_HIGH and lit = "''1''"]
      run [where k = "scripted 0 3 2 None 0" and edge = E_GPIO_RISING and lit = "''rising''"]
      run [where k = "scripted 0 3 (- 1) None 0" and edge = E_GPIO_RISING and lit = "''rising''"]
    by (simp add: Let_def scripted_def fmt_17 texts write_ret_def)
qed

text \<open>
  The claim as stated (a short but non-negative write in the setters still
  yields true) does not hold without that proviso: the write of \<open>''out''\<close>
  returns 1, which is non-negative and short of 3, the close returns \<open>-1\<close>, and
  the result is false.
\<close>

theorem setter_short_write_close_failure_counterexample:
  "gpio_set_direction (scripted 0 3 1 None (- 1)) 17 E_GPIO_OUT [] =
     (False, [EAccess ''/sys/class/gpio/gpio17'' F_OK 0,
              EOpen ''/sys/class/gpio/gpio17/direction'' {O_WRONLY} 3,
              EWrite 3 ''out'' 1,
              EClose 3 (- 1)])
   \<and> (0::int) \<le> 1 \<and> (1::int) < int (length ''out'')"
  by (simp add: gpio_set_direction_run Let_def scripted_def fmt_17 direction_text_def
      write_close_def write_ret_def E_GPIO_IN_def E_GPIO_OUT_def)

subsection \<open>Descriptors left open\<close>

lemma held_append: "held (t @ es) = foldl held_step (held t) es"
  by (simp add: held_def)

text \<open>
  \<open>gpio_export\<close>, \<open>gpio_unexport\<close> and \<open>gpio_get_value\<close> hold no descriptor of
  their own when they return, whatever the kernel answers, and neither do the
  three setters when called with a declared enumerator. \<open>gpio_open\<close> holds
  exactly the descriptor it returns. In the \<^verbatim>\<open>default\<close> branch of a setter the
  descriptor just opened stays held.
\<close>

lemma descriptors_released:
  "held (snd (gpio_export k gpio_num t)) = held t"
  "held (snd (gpio_unexport k gpio_num t)) = held t"
  "held (snd (snd (gpio_get_value k p gpio_num h t))) = held t"
  "direction_text direction \<noteq> None \<Longrightarrow> held (snd (gpio_set_direction k gpio_num direction t)) = held t"
  "value_text val \<noteq> None \<Longrightarrow> held (snd (gpio_set_value k gpio_num val t)) = held t"
  "edge_text edge \<noteq> None \<Longrightarrow> held (snd (gpio_set_edge k gpio_num edge t)) = held t"
  by (auto simp add: gpio_export_run gpio_unexport_run gpio_get_value_run gpio_set_direction_run
      gpio_set_value_run gpio_set_edge_run Let_def held_append write_close_def
      split: option.splits)

lemma default_branch_keeps_descriptor:
  assumes "a = k_access k t (fmt_gpio gpio_num) F_OK"
    and "t1 = t @ [EAccess (fmt_gpio gpio_num) F_OK a]"
    and "a \<noteq> - 1"
  shows "direction_text direction = None \<Longrightarrow> fd = k_open k t1 (fmt_direction gpio_num) {O_WRONLY} \<Longrightarrow> 0 \<le> fd \<Longrightarrow>
           held (snd (gpio_set_direction k gpio_num direction t)) = fd # held t"
    and "value_text val = None \<Longrightarrow> fd = k_open k t1 (fmt_value gpio_num) {O_WRONLY} \<Longrightarrow> 0 \<le> fd \<Longrightarrow>
           held (snd (gpio_set_value k gpio_num val t)) = fd # held t"
    and "edge_text edge = None \<Longrightarrow> fd = k_open k t1 (fmt_edge gpio_num) {O_WRONLY} \<Longrightarrow> 0 \<le> fd \<Longrightarrow>
           held (snd (gpio_set_edge k gpio_num edge t)) = fd # held t"
  using assms
  by (simp_all add: gpio_set_direction_run gpio_set_value_run gpio_set_edge_run Let_def held_append)

lemma gpio_open_holds:
  "held (snd (gpio_open k gpio_num t)) =
     (if 0 \<le> fst (gpio_open k gpio_num t) then fst (gpio_open k gpio_num t) # held t else held t)"
  by (simp add: gpio_open_run Let_def held_append)

text \<open>
  Claim C4 says that every operation closes the descriptor it opens on every
  exit path, the \<^verbatim>\<open>default\<close> branches of the three setters included. The source
  returns from those branches without calling \<^verbatim>\<open>close\<close>. On an exported pin
  whose file opens as descriptor 3, a call with an argument that matches no
  declared enumerator (2 for a direction or a level, 4 for an edge) returns
  false with a log that ends in the \<^verbatim>\<open>open\<close>: descriptor 3 is still held.
\<close>

theorem setters_default_branch_leaves_descriptor_open:
  "gpio_set_direction (scripted 0 3 2 None 0) 17 2 [] =
     (False, [EAccess ''/sys/class/gpio/gpio17'' F_OK 0,
              EOpen ''/sys/class/gpio/gpio17/direction'' {O_WRONLY} 3])
   \<and> held (snd (gpio_set_direction (scripted 0 3 2 None 0) 17 2 [])) = [3]
   \<and> gpio_set_value (scripted 0 3 2 None 0) 17 2 [] =
     (False, [EAccess ''/sys/class/gpio/gpio17'' F_OK 0,
              EOpen ''/sys/class/gpio/gpio17/value'' {O_WRONLY} 3])
   \<and> held (snd (gpio_set_value (scripted 0 3 2 None 0) 17 2 [])) = [3]
   \<and> gpio_set_edge (scripted 0 3 2 None 0) 17 4 [] =
     (False, [EAccess ''/sys/class/gpio/gpio17'' F_OK 0,
              EOpen ''/sys/class/gpio/gpio17/edge'' {O_WRONLY} 3])
   \<and> held (snd (gpio_set_edge (scripted 0 3 2 None 0) 17 4 [])) = [3]"
  by (simp add: gpio_set_direction_run gpio_set_value_run gpio_set_edge_run Let_def scripted_def
      fmt_17 direction_text_def value_text_def edge_text_def held_def
      E_GPIO_IN_def E_GPIO_OUT_def E_GPIO_LOW_def E_GPIO_HIGH_def
      E_GPIO_NONE_def E_GPIO_RISING_def E_GPIO_FALLING_def E_GPIO_BOTH_def)

end
